theory Spec2Isabelle
  imports Main
begin

section \<open>Dense n-dimensional matrix storage (ext/nmatrix/storage/dense.cpp)\<close>

text \<open>
  A shallow embedding of \<^verbatim>\<open>dense.cpp\<close>. The C++ functions work on pointers to
  \<^verbatim>\<open>DENSE_STORAGE\<close> structs, to \<^verbatim>\<open>size_t\<close> arrays (shape, offset, slice coordinates
  and lengths) and to untyped element buffers. The embedding keeps these three kinds of
  object in a store with one map per pointer type, and every function takes the store and
  returns the updated one.

  \<^item> A pointer is an address (a natural number); \<open>NULL\<close> is address 0.
  \<^item> An element buffer is a list of cells. A cell stands for the \<^verbatim>\<open>DTYPE_SIZES[dtype]\<close>
    bytes of one element, so byte offsets \<^verbatim>\<open>k * DTYPE_SIZES[dtype]\<close> are cell indices
    \<open>k\<close>, and a \<^verbatim>\<open>memcpy\<close> of \<^verbatim>\<open>n * DTYPE_SIZES[dtype]\<close> bytes copies \<open>n\<close> cells;
    the cell type \<open>'e\<close> is left open.
  \<^item> Dereferencing a null or dangling pointer and indexing past the end of an array are
    undefined behaviour in C++; the embedding returns the errors \<open>BadPointer\<close> and
    \<open>OutOfBounds\<close> there.
  \<^item> \<^verbatim>\<open>size_t\<close> is 64 bits wide, \<^verbatim>\<open>int\<close> and \<^verbatim>\<open>unsigned int\<close> are 32 bits wide.
    \<^verbatim>\<open>size_t\<close> values are natural numbers. \<^verbatim>\<open>dense_storage_pos\<close> computes with
    whatever coordinates it is given, so its arithmetic is written out modulo \<open>2^64\<close>;
    so are the narrowing conversions to \<^verbatim>\<open>int\<close> and \<^verbatim>\<open>unsigned int\<close> and the
    32-bit arithmetic of the comparison loops. The other \<^verbatim>\<open>size_t\<close> values are counts
    and indices of elements of buffers that exist in the store, which do not wrap around.
  \<^item> The allocation macros of the host (\<^verbatim>\<open>ALLOC\<close>, \<^verbatim>\<open>ALLOC_N\<close>) and \<^verbatim>\<open>calloc\<close> are
    not part of the file. They either return a fresh address or \<open>NULL\<close>; the store
    carries the outcomes of the coming allocation calls (\<open>alloc_plan\<close>) and the
    contents of uninitialised memory (\<open>junk_storage\<close>, \<open>junk_size\<close>, \<open>junk_cell\<close>).
  \<^item> The element operators of the dtypes (\<^verbatim>\<open>!=\<close>, the converting assignment between
    two buffers read as arrays of two element types, the reading of a buffer as complex
    structs) live in absent headers; the functions that use them take them as
    parameters.
  \<^item> \<^verbatim>\<open>dense_storage_mark\<close> only hands the elements to the garbage collector of the host
    and is not embedded.
\<close>

subsection \<open>Data model\<close>

type_synonym addr = nat

definition NULL :: addr where
  "NULL = 0"

text \<open>
  Modelled from the spec: the enumeration \<^verbatim>\<open>dtype_t\<close> is declared in \<^verbatim>\<open>types.h\<close>,
  which is absent. The spec describes a fixed, closed enumeration of element kinds
  with complex kinds of two precisions and one object-handle kind; \<^verbatim>\<open>dense.cpp\<close>
  names \<^verbatim>\<open>COMPLEX64\<close>, \<^verbatim>\<open>COMPLEX128\<close> and \<^verbatim>\<open>RUBYOBJ\<close>. Every other member is
  carried by its index.
\<close>

datatype dtype_t = COMPLEX64 | COMPLEX128 | RUBYOBJ | OTHER nat

text \<open>
  The struct \<^verbatim>\<open>DENSE_STORAGE\<close> (declared in the absent \<^verbatim>\<open>dense.h\<close>), with the fields
  \<^verbatim>\<open>dense.cpp\<close> reads and writes.
\<close>

record DENSE_STORAGE =
  dtype :: dtype_t
  rank :: nat
  shape :: addr
  offset :: addr
  elements :: addr
  count :: int
  src :: addr

text \<open>The struct \<^verbatim>\<open>SLICE\<close>, with the fields \<^verbatim>\<open>dense.cpp\<close> reads.\<close>

record SLICE =
  coords :: addr
  lens :: addr
  is_one_el :: bool

text \<open>
  A complex element, as the Hermitian test uses it: a struct with a real and an
  imaginary component (\<^verbatim>\<open>.r\<close> and \<^verbatim>\<open>.i\<close> in the absent \<^verbatim>\<open>complex.h\<close>), compared
  component by component.
\<close>

datatype 'a Complex = Complex (c_r: 'a) (c_i: 'a)

datatype error = BadPointer | OutOfBounds

record 'e heap =
  storages :: "addr \<rightharpoonup> DENSE_STORAGE"
  arrays :: "addr \<rightharpoonup> nat list"
  buffers :: "addr \<rightharpoonup> 'e list"
  next_addr :: addr
  alloc_plan :: "bool list"
  junk_storage :: DENSE_STORAGE
  junk_size :: nat
  junk_cell :: 'e

text \<open>
  The result of \<^verbatim>\<open>dense_storage_get\<close>, a \<^verbatim>\<open>void*\<close> in the source: the address of
  one element inside a buffer, or a pointer to a new storage.
\<close>

datatype get_result = ElementPtr addr nat | StoragePtr addr

subsection \<open>Memory primitives\<close>

definition read_array :: "'e heap \<Rightarrow> addr \<Rightarrow> nat \<Rightarrow> error + nat" where
  "read_array h p k =
     (case arrays h p of
        None \<Rightarrow> Inl BadPointer
      | Some xs \<Rightarrow> if k < length xs then Inr (xs ! k) else Inl OutOfBounds)"

definition write_array :: "'e heap \<Rightarrow> addr \<Rightarrow> nat \<Rightarrow> nat \<Rightarrow> error + 'e heap" where
  "write_array h p k v =
     (case arrays h p of
        None \<Rightarrow> Inl BadPointer
      | Some xs \<Rightarrow>
          if k < length xs then Inr (h\<lparr>arrays := (arrays h)(p \<mapsto> xs[k := v])\<rparr>)
          else Inl OutOfBounds)"

definition read_cell :: "'e heap \<Rightarrow> addr \<Rightarrow> nat \<Rightarrow> error + 'e" where
  "read_cell h p k =
     (case buffers h p of
        None \<Rightarrow> Inl BadPointer
      | Some xs \<Rightarrow> if k < length xs then Inr (xs ! k) else Inl OutOfBounds)"

text \<open>
  \<^verbatim>\<open>memcpy(dst + doff, sp + soff, n)\<close> in cells: \<open>n\<close> cells of the buffer at \<open>sp\<close>,
  from cell \<open>soff\<close>, overwrite the cells of the buffer at \<open>dst\<close> from cell \<open>doff\<close>.
\<close>

definition memcpy :: "addr \<Rightarrow> nat \<Rightarrow> addr \<Rightarrow> nat \<Rightarrow> nat \<Rightarrow> 'e heap \<Rightarrow> error + 'e heap" where
  "memcpy dst doff sp soff n h =
     (case buffers h sp of
        None \<Rightarrow> Inl BadPointer
      | Some sb \<Rightarrow>
          (case buffers h dst of
             None \<Rightarrow> Inl BadPointer
           | Some db \<Rightarrow>
               if length sb < soff + n \<or> length db < doff + n then Inl OutOfBounds
               else Inr (h\<lparr>buffers := (buffers h)
                      (dst \<mapsto> take doff db @ take n (drop soff sb) @ drop (doff + n) db)\<rparr>)))"

text \<open>
  One allocation call: the next entry of \<open>alloc_plan\<close> says whether it succeeds (an
  exhausted plan means success). A successful call hands out \<open>next_addr\<close>.
\<close>

definition take_address :: "'e heap \<Rightarrow> addr \<times> 'e heap" where
  "take_address h =
     (case alloc_plan h of
        [] \<Rightarrow> (next_addr h, h\<lparr>next_addr := Suc (next_addr h)\<rparr>)
      | ok # plan \<Rightarrow>
          if ok then (next_addr h, h\<lparr>next_addr := Suc (next_addr h), alloc_plan := plan\<rparr>)
          else (NULL, h\<lparr>alloc_plan := plan\<rparr>))"

text \<open>\<^verbatim>\<open>ALLOC(DENSE_STORAGE)\<close>: an uninitialised struct.\<close>

definition ALLOC :: "'e heap \<Rightarrow> addr \<times> 'e heap" where
  "ALLOC h =
     (let (p, h1) = take_address h in
      if p = NULL then (NULL, h1)
      else (p, h1\<lparr>storages := (storages h1)(p \<mapsto> junk_storage h1)\<rparr>))"

text \<open>\<^verbatim>\<open>ALLOC_N(size_t, n)\<close>: an uninitialised array of \<open>n\<close> sizes.\<close>

definition ALLOC_N_size_t :: "nat \<Rightarrow> 'e heap \<Rightarrow> addr \<times> 'e heap" where
  "ALLOC_N_size_t n h =
     (let (p, h1) = take_address h in
      if p = NULL then (NULL, h1)
      else (p, h1\<lparr>arrays := (arrays h1)(p \<mapsto> replicate n (junk_size h1))\<rparr>))"

text \<open>\<^verbatim>\<open>calloc(sizeof(size_t), n)\<close>: a zero-filled array of \<open>n\<close> sizes.\<close>

definition calloc_size_t :: "nat \<Rightarrow> 'e heap \<Rightarrow> addr \<times> 'e heap" where
  "calloc_size_t n h =
     (let (p, h1) = take_address h in
      if p = NULL then (NULL, h1)
      else (p, h1\<lparr>arrays := (arrays h1)(p \<mapsto> replicate n 0)\<rparr>))"

text \<open>\<^verbatim>\<open>ALLOC_N(char, DTYPE_SIZES[dtype] * n)\<close>: an uninitialised buffer of \<open>n\<close> cells.\<close>

definition ALLOC_N_char :: "nat \<Rightarrow> 'e heap \<Rightarrow> addr \<times> 'e heap" where
  "ALLOC_N_char n h =
     (let (p, h1) = take_address h in
      if p = NULL then (NULL, h1)
      else (p, h1\<lparr>buffers := (buffers h1)(p \<mapsto> replicate n (junk_cell h1))\<rparr>))"

text \<open>
  \<^verbatim>\<open>free\<close>, by pointer type: the object leaves the store. Freeing \<open>NULL\<close> changes
  nothing. (Freeing an address that holds no object is undefined behaviour in C++; the
  maps are left as they are there.)
\<close>

definition free_storage :: "addr \<Rightarrow> 'e heap \<Rightarrow> 'e heap" where
  "free_storage p h = (if p = NULL then h else h\<lparr>storages := (storages h)(p := None)\<rparr>)"

definition free_array :: "addr \<Rightarrow> 'e heap \<Rightarrow> 'e heap" where
  "free_array p h = (if p = NULL then h else h\<lparr>arrays := (arrays h)(p := None)\<rparr>)"

definition free_buffer :: "addr \<Rightarrow> 'e heap \<Rightarrow> 'e heap" where
  "free_buffer p h = (if p = NULL then h else h\<lparr>buffers := (buffers h)(p := None)\<rparr>)"

text \<open>
  Modelled from the spec: \<^verbatim>\<open>storage_count_max_elements(rank, shape)\<close> is defined in a
  file that is absent. The spec calls its result the element count, the product of the
  shape extents (\<open>product(shape)\<close>), which is 1 for rank 0.
\<close>

definition storage_count_max_elements :: "'e heap \<Rightarrow> nat \<Rightarrow> addr \<Rightarrow> error + nat" where
  "storage_count_max_elements h rk sh =
     (if rk = 0 then Inr 1
      else case arrays h sh of
             None \<Rightarrow> Inl BadPointer
           | Some xs \<Rightarrow> if rk \<le> length xs then Inr (prod_list (take rk xs)) else Inl OutOfBounds)"

subsection \<open>Sequencing of fallible steps\<close>

definition and_then :: "error + 'a \<Rightarrow> ('a \<Rightarrow> error + 'b) \<Rightarrow> error + 'b" where
  "and_then m f = (case m of Inl e \<Rightarrow> Inl e | Inr x \<Rightarrow> f x)"

text \<open>Reading a struct through a pointer (\<^verbatim>\<open>s->field\<close>) and assigning to its fields.\<close>

definition get_storage :: "'e heap \<Rightarrow> addr \<Rightarrow> error + DENSE_STORAGE" where
  "get_storage h p = (case storages h p of None \<Rightarrow> Inl BadPointer | Some S \<Rightarrow> Inr S)"

definition update_storage ::
  "addr \<Rightarrow> (DENSE_STORAGE \<Rightarrow> DENSE_STORAGE) \<Rightarrow> 'e heap \<Rightarrow> error + 'e heap" where
  "update_storage p f h =
     (case storages h p of
        None \<Rightarrow> Inl BadPointer
      | Some S \<Rightarrow> Inr (h\<lparr>storages := (storages h)(p \<mapsto> f S)\<rparr>))"

subsection \<open>Conversions between the integer types of the source\<close>

text \<open>
  The result of an arithmetic operation on \<^verbatim>\<open>size_t\<close> values (\<open>size_t_wrap\<close>);
  \<^verbatim>\<open>size_t\<close> to \<^verbatim>\<open>int\<close> (32 bits, two's complement; the value is reduced modulo
  \<open>2^32\<close>, as the compilers of the extension do and as C++20 prescribes), \<^verbatim>\<open>size_t\<close>
  to \<^verbatim>\<open>unsigned int\<close> (32 bits) and \<^verbatim>\<open>int\<close> to \<^verbatim>\<open>unsigned int\<close>.
\<close>

definition size_t_wrap :: "nat \<Rightarrow> nat" where
  "size_t_wrap n = n mod 2 ^ 64"

definition size_t_to_int :: "nat \<Rightarrow> int" where
  "size_t_to_int n = (int n + 2 ^ 31) mod 2 ^ 32 - 2 ^ 31"

definition size_t_to_uint :: "nat \<Rightarrow> nat" where
  "size_t_to_uint n = n mod 2 ^ 32"

definition int_to_uint :: "int \<Rightarrow> nat" where
  "int_to_uint x = nat (x mod 2 ^ 32)"

text \<open>
  The index expressions \<^verbatim>\<open>a*lda + b\<close> of the symmetry tests: \<open>a\<close> and \<open>b\<close> are
  \<^verbatim>\<open>unsigned int\<close>, \<open>lda\<close> is an \<^verbatim>\<open>int\<close> converted to \<^verbatim>\<open>unsigned int\<close>, and the
  arithmetic is modulo \<open>2^32\<close>.
\<close>

definition uint_index :: "nat \<Rightarrow> int \<Rightarrow> nat \<Rightarrow> nat" where
  "uint_index a lda b = (a * int_to_uint lda + b) mod 2 ^ 32"

subsection \<open>Utility: \<^verbatim>\<open>dense_storage_pos\<close>\<close>

text \<open>
  The inner loop \<^verbatim>\<open>for (l = k+1; l < s->rank; ++l) inner *= src->shape[l]\<close>, where
  \<open>S\<close> is the struct \<open>s\<close> points to. \<open>inner\<close> and \<open>outer\<close> are \<^verbatim>\<open>size_t\<close>
  variables: every sum and product is reduced modulo \<open>2^64\<close>.
\<close>

function pos_inner :: "'e heap \<Rightarrow> DENSE_STORAGE \<Rightarrow> nat \<Rightarrow> nat \<Rightarrow> error + nat" where
  "pos_inner h S l inner =
     (if l < rank S then
        (case get_storage h (src S) of
           Inl e \<Rightarrow> Inl e
         | Inr R \<Rightarrow>
             (case read_array h (shape R) l of
                Inl e \<Rightarrow> Inl e
              | Inr d \<Rightarrow> pos_inner h S (Suc l) (size_t_wrap (inner * d))))
      else Inr inner)"
  by pat_completeness auto
termination
  by (relation "measure (\<lambda>(h, S, l, inner). rank S - l)") auto

text \<open>The outer loop \<^verbatim>\<open>for (k = s->rank; k-- > 0;)\<close>; the argument is \<open>k\<close> before the test.\<close>

fun pos_outer :: "'e heap \<Rightarrow> DENSE_STORAGE \<Rightarrow> SLICE \<Rightarrow> nat \<Rightarrow> nat \<Rightarrow> error + nat" where
  "pos_outer h S slice 0 outer = Inr outer"
| "pos_outer h S slice (Suc k) outer =
     (case read_array h (coords slice) k of
        Inl e \<Rightarrow> Inl e
      | Inr c \<Rightarrow>
          (case read_array h (offset S) k of
             Inl e \<Rightarrow> Inl e
           | Inr off \<Rightarrow>
               (case pos_inner h S (Suc k) (size_t_wrap (c + off)) of
                  Inl e \<Rightarrow> Inl e
                | Inr inner \<Rightarrow> pos_outer h S slice k (size_t_wrap (outer + inner)))))"

definition dense_storage_pos :: "addr \<Rightarrow> SLICE \<Rightarrow> 'e heap \<Rightarrow> error + nat" where
  "dense_storage_pos s slice h =
     and_then (get_storage h s) (\<lambda>S. pos_outer h S slice (rank S) 0)"

subsection \<open>Lifecycle\<close>

text \<open>
  The tiling loop of \<^verbatim>\<open>dense_storage_create\<close>:
  \<^verbatim>\<open>for (i = 0; i < count; i += elements_length)\<close>. The source enters it only under
  \<^verbatim>\<open>elements_length > 0\<close>; the guard is repeated here, which makes the recursion total.
\<close>

function tile_loop ::
  "addr \<Rightarrow> addr \<Rightarrow> nat \<Rightarrow> nat \<Rightarrow> nat \<Rightarrow> nat \<Rightarrow> 'e heap \<Rightarrow> error + 'e heap" where
  "tile_loop dst els elements_length cnt i copy_length h =
     (if 0 < elements_length \<and> i < cnt then
        (let copy_length' = (if cnt < i + elements_length then cnt - i else copy_length) in
         case memcpy dst i els (i mod elements_length) copy_length' h of
           Inl e \<Rightarrow> Inl e
         | Inr h' \<Rightarrow> tile_loop dst els elements_length cnt (i + elements_length) copy_length' h')
      else Inr h)"
  by pat_completeness auto
termination
  by (relation "measure (\<lambda>(dst, els, elements_length, cnt, i, copy_length, h). cnt - i)") auto

definition dense_storage_create ::
  "dtype_t \<Rightarrow> addr \<Rightarrow> nat \<Rightarrow> addr \<Rightarrow> nat \<Rightarrow> 'e heap \<Rightarrow> error + (addr \<times> 'e heap)" where
  "dense_storage_create dt sh rk els elements_length h =
     (let (s, h1) = ALLOC h in
      and_then (update_storage s (\<lambda>S. S\<lparr>rank := rk, shape := sh, dtype := dt\<rparr>) h1) (\<lambda>h2.
      let (off, h3) = calloc_size_t rk h2 in
      and_then (update_storage s (\<lambda>S. S\<lparr>offset := off, count := 1, src := s\<rparr>) h3) (\<lambda>h4.
      and_then (storage_count_max_elements h4 rk sh) (\<lambda>cnt.
      if elements_length = cnt then
        and_then (update_storage s (\<lambda>S. S\<lparr>elements := els\<rparr>) h4) (\<lambda>h5. Inr (s, h5))
      else
        let (buf, h5) = ALLOC_N_char cnt h4 in
        and_then (update_storage s (\<lambda>S. S\<lparr>elements := buf\<rparr>) h5) (\<lambda>h6.
        if 0 < elements_length then
          and_then (tile_loop buf els elements_length cnt 0 elements_length h6) (\<lambda>h7.
          Inr (s, free_buffer els h7))
        else Inr (s, h6))))))"

definition dense_storage_delete :: "addr \<Rightarrow> 'e heap \<Rightarrow> error + 'e heap" where
  "dense_storage_delete s h =
     (if s \<noteq> NULL then
        and_then (get_storage h s) (\<lambda>S.
        if count S \<le> 1 then
          Inr (free_storage s (free_buffer (elements S) (free_array (offset S)
                 (free_array (shape S) h))))
        else Inr h)
      else Inr h)"

definition dense_storage_delete_ref :: "addr \<Rightarrow> 'e heap \<Rightarrow> error + 'e heap" where
  "dense_storage_delete_ref s h =
     (if s \<noteq> NULL then
        and_then (get_storage h s) (\<lambda>S.
        and_then (update_storage (src S) (\<lambda>R. R\<lparr>count := count R - 1\<rparr>) h) (\<lambda>h1.
        and_then (get_storage h1 s) (\<lambda>S1.
        Inr (free_storage s (free_array (offset S1) (free_array (shape S1) h1))))))
      else Inr h)"

subsection \<open>Accessors\<close>

definition dense_storage_get ::
  "addr \<Rightarrow> SLICE \<Rightarrow> 'e heap \<Rightarrow> error + (get_result \<times> 'e heap)" where
  "dense_storage_get s slice h =
     (if is_one_el slice then
        and_then (get_storage h s) (\<lambda>S.
        and_then (dense_storage_pos s slice h) (\<lambda>p.
        Inr (ElementPtr (elements S) p, h)))
      else
        let (ns, h1) = ALLOC h in
        and_then (get_storage h1 s) (\<lambda>S.
        and_then (update_storage ns (\<lambda>N. N\<lparr>rank := rank S, shape := lens slice,
                     dtype := dtype S, offset := coords slice, elements := elements S\<rparr>) h1) (\<lambda>h2.
        and_then (update_storage s (\<lambda>S. S\<lparr>count := count S + 1\<rparr>) h2) (\<lambda>h3.
        and_then (update_storage ns (\<lambda>N. N\<lparr>src := s\<rparr>) h3) (\<lambda>h4.
        Inr (StoragePtr ns, h4))))))"


subsection \<open>Tests\<close>

text \<open>
  \<^verbatim>\<open>dense_storage_eqeq_template<LDType, RDType>\<close>. The parameter \<open>ne\<close> is the
  operator \<^verbatim>\<open>!=\<close> between an \<^verbatim>\<open>LDType\<close> and an \<^verbatim>\<open>RDType\<close> (defined in absent
  headers). The loop variable \<open>index\<close> is an \<^verbatim>\<open>int\<close>: the loop
  \<^verbatim>\<open>for (index = count; index-- > 0;)\<close> tests \<open>index\<close>, decrements it, and runs the
  body with the decremented value.
\<close>

function eqeq_loop ::
  "('e \<Rightarrow> 'e \<Rightarrow> bool) \<Rightarrow> 'e heap \<Rightarrow> addr \<Rightarrow> addr \<Rightarrow> int \<Rightarrow> error + bool" where
  "eqeq_loop ne h left_els right_els index =
     (if 0 < index then
        (case read_cell h left_els (nat (index - 1)) of
           Inl e \<Rightarrow> Inl e
         | Inr x \<Rightarrow>
             (case read_cell h right_els (nat (index - 1)) of
                Inl e \<Rightarrow> Inl e
              | Inr y \<Rightarrow>
                  if ne x y then Inr False
                  else eqeq_loop ne h left_els right_els (index - 1)))
      else Inr True)"
  by pat_completeness auto
termination
  by (relation "measure (\<lambda>(ne, h, left_els, right_els, index). nat index)") auto

definition dense_storage_eqeq_template ::
  "('e \<Rightarrow> 'e \<Rightarrow> bool) \<Rightarrow> addr \<Rightarrow> addr \<Rightarrow> 'e heap \<Rightarrow> error + bool" where
  "dense_storage_eqeq_template ne left right h =
     and_then (get_storage h left) (\<lambda>L.
     and_then (get_storage h right) (\<lambda>R.
     and_then (storage_count_max_elements h (rank L) (shape L)) (\<lambda>cnt.
     eqeq_loop ne h (elements L) (elements R) (size_t_to_int cnt))))"

text \<open>
  \<^verbatim>\<open>dense_storage_eqeq\<close>: the table built by \<^verbatim>\<open>LR_DTYPE_TEMPLATE_TABLE\<close> holds the
  template instance for every pair of dtypes; \<open>ne ld rd\<close> is the \<^verbatim>\<open>!=\<close> of the
  instance at \<^verbatim>\<open>ttable[ld][rd]\<close>.
\<close>

definition dense_storage_eqeq ::
  "(dtype_t \<Rightarrow> dtype_t \<Rightarrow> 'e \<Rightarrow> 'e \<Rightarrow> bool) \<Rightarrow> addr \<Rightarrow> addr \<Rightarrow> 'e heap \<Rightarrow> error + bool" where
  "dense_storage_eqeq ne left right h =
     and_then (get_storage h left) (\<lambda>L.
     and_then (get_storage h right) (\<lambda>R.
     dense_storage_eqeq_template (ne (dtype L) (dtype R)) left right h))"

text \<open>
  The symmetry tests. The counters \<open>i\<close> and \<open>j\<close> are \<^verbatim>\<open>unsigned int\<close>; the inner
  loop \<^verbatim>\<open>for (j = i + 1; j < mat->shape[1]; ++j)\<close> compares \<open>j\<close> with a \<^verbatim>\<open>size_t\<close>
  and need not end when that extent exceeds the range of \<open>j\<close>, so the loops return an
  option, \<open>None\<close> for a run that never returns. Of the inner loops, \<open>Some (Inr True)\<close>
  means that the loop ended without a mismatch, \<open>Some (Inr False)\<close> that the function
  returned \<^verbatim>\<open>false\<close>.

  \<^verbatim>\<open>dense_storage_is_hermitian_template<DType>\<close> reads the buffer as an array of complex
  structs: \<open>cx\<close> is that reading of a cell.
\<close>

partial_function (option) hermitian_cols ::
  "('e \<Rightarrow> 'a::uminus Complex) \<Rightarrow> 'e heap \<Rightarrow> DENSE_STORAGE \<Rightarrow> int \<Rightarrow> nat \<Rightarrow> nat
     \<Rightarrow> (error + bool) option" where
  "hermitian_cols cx h M lda i j =
     (case read_array h (shape M) 1 of
        Inl e \<Rightarrow> Some (Inl e)
      | Inr n1 \<Rightarrow>
          if j < n1 then
            (case read_cell h (elements M) (uint_index j lda 1) of
               Inl e \<Rightarrow> Some (Inl e)
             | Inr c \<Rightarrow>
                 (case read_cell h (elements M) (uint_index i lda j) of
                    Inl e \<Rightarrow> Some (Inl e)
                  | Inr x \<Rightarrow>
                      if cx x \<noteq> Complex (c_r (cx c)) (- c_i (cx c)) then Some (Inr False)
                      else hermitian_cols cx h M lda i ((j + 1) mod 2 ^ 32)))
          else Some (Inr True))"

fun hermitian_rows ::
  "('e \<Rightarrow> 'a::uminus Complex) \<Rightarrow> 'e heap \<Rightarrow> DENSE_STORAGE \<Rightarrow> int \<Rightarrow> nat
     \<Rightarrow> (error + bool) option" where
  "hermitian_rows cx h M lda 0 = Some (Inr True)"
| "hermitian_rows cx h M lda (Suc i) =
     (case hermitian_cols cx h M lda i ((i + 1) mod 2 ^ 32) of
        None \<Rightarrow> None
      | Some (Inl e) \<Rightarrow> Some (Inl e)
      | Some (Inr False) \<Rightarrow> Some (Inr False)
      | Some (Inr True) \<Rightarrow> hermitian_rows cx h M lda i)"

definition dense_storage_is_hermitian_template ::
  "('e \<Rightarrow> 'a::uminus Complex) \<Rightarrow> addr \<Rightarrow> int \<Rightarrow> 'e heap \<Rightarrow> (error + bool) option" where
  "dense_storage_is_hermitian_template cx mat lda h =
     (case get_storage h mat of
        Inl e \<Rightarrow> Some (Inl e)
      | Inr M \<Rightarrow>
          (case read_array h (shape M) 0 of
             Inl e \<Rightarrow> Some (Inl e)
           | Inr n0 \<Rightarrow> hermitian_rows cx h M lda (size_t_to_uint n0)))"

text \<open>
  \<^verbatim>\<open>dense_storage_is_symmetric_template<DType>\<close>; \<open>ne\<close> is the \<^verbatim>\<open>!=\<close> of \<^verbatim>\<open>DType\<close>.
\<close>

partial_function (option) symmetric_cols ::
  "('e \<Rightarrow> 'e \<Rightarrow> bool) \<Rightarrow> 'e heap \<Rightarrow> DENSE_STORAGE \<Rightarrow> int \<Rightarrow> nat \<Rightarrow> nat
     \<Rightarrow> (error + bool) option" where
  "symmetric_cols ne h M lda i j =
     (case read_array h (shape M) 1 of
        Inl e \<Rightarrow> Some (Inl e)
      | Inr n1 \<Rightarrow>
          if j < n1 then
            (case read_cell h (elements M) (uint_index i lda j) of
               Inl e \<Rightarrow> Some (Inl e)
             | Inr x \<Rightarrow>
                 (case read_cell h (elements M) (uint_index j lda i) of
                    Inl e \<Rightarrow> Some (Inl e)
                  | Inr y \<Rightarrow>
                      if ne x y then Some (Inr False)
                      else symmetric_cols ne h M lda i ((j + 1) mod 2 ^ 32)))
          else Some (Inr True))"

fun symmetric_rows ::
  "('e \<Rightarrow> 'e \<Rightarrow> bool) \<Rightarrow> 'e heap \<Rightarrow> DENSE_STORAGE \<Rightarrow> int \<Rightarrow> nat \<Rightarrow> (error + bool) option" where
  "symmetric_rows ne h M lda 0 = Some (Inr True)"
| "symmetric_rows ne h M lda (Suc i) =
     (case symmetric_cols ne h M lda i ((i + 1) mod 2 ^ 32) of
        None \<Rightarrow> None
      | Some (Inl e) \<Rightarrow> Some (Inl e)
      | Some (Inr False) \<Rightarrow> Some (Inr False)
      | Some (Inr True) \<Rightarrow> symmetric_rows ne h M lda i)"

definition dense_storage_is_symmetric_template ::
  "('e \<Rightarrow> 'e \<Rightarrow> bool) \<Rightarrow> addr \<Rightarrow> int \<Rightarrow> 'e heap \<Rightarrow> (error + bool) option" where
  "dense_storage_is_symmetric_template ne mat lda h =
     (case get_storage h mat of
        Inl e \<Rightarrow> Some (Inl e)
      | Inr M \<Rightarrow>
          (case read_array h (shape M) 0 of
             Inl e \<Rightarrow> Some (Inl e)
           | Inr n0 \<Rightarrow> symmetric_rows ne h M lda (size_t_to_uint n0)))"

text \<open>
  \<^verbatim>\<open>dense_storage_is_symmetric\<close> selects the instance by \<^verbatim>\<open>mat->dtype\<close>
  (\<^verbatim>\<open>DTYPE_TEMPLATE_TABLE\<close>); \<open>ne d\<close> is the \<^verbatim>\<open>!=\<close> of the element type of dtype \<open>d\<close>.
\<close>

definition dense_storage_is_symmetric ::
  "(dtype_t \<Rightarrow> 'e \<Rightarrow> 'e \<Rightarrow> bool) \<Rightarrow> addr \<Rightarrow> int \<Rightarrow> 'e heap \<Rightarrow> (error + bool) option" where
  "dense_storage_is_symmetric ne mat lda h =
     (case get_storage h mat of
        Inl e \<Rightarrow> Some (Inl e)
      | Inr M \<Rightarrow> dense_storage_is_symmetric_template (ne (dtype M)) mat lda h)"

definition dense_storage_is_hermitian ::
  "(dtype_t \<Rightarrow> 'e \<Rightarrow> 'e \<Rightarrow> bool) \<Rightarrow> (dtype_t \<Rightarrow> 'e \<Rightarrow> 'a::uminus Complex) \<Rightarrow> addr \<Rightarrow> int
     \<Rightarrow> 'e heap \<Rightarrow> (error + bool) option" where
  "dense_storage_is_hermitian ne cx mat lda h =
     (case get_storage h mat of
        Inl e \<Rightarrow> Some (Inl e)
      | Inr M \<Rightarrow>
          if dtype M = COMPLEX64 then
            dense_storage_is_hermitian_template (cx COMPLEX64) mat lda h
          else if dtype M = COMPLEX128 then
            dense_storage_is_hermitian_template (cx COMPLEX128) mat lda h
          else dense_storage_is_symmetric ne mat lda h)"

subsection \<open>Copying and casting\<close>

text \<open>The loop \<^verbatim>\<open>for (p = rhs->rank; p-- > 0;) shape[p] = rhs->shape[p]\<close>.\<close>

fun copy_shape :: "addr \<Rightarrow> addr \<Rightarrow> nat \<Rightarrow> 'e heap \<Rightarrow> error + 'e heap" where
  "copy_shape dst sp 0 h = Inr h"
| "copy_shape dst sp (Suc p) h =
     (case read_array h sp p of
        Inl e \<Rightarrow> Inl e
      | Inr v \<Rightarrow>
          (case write_array h dst p v of
             Inl e \<Rightarrow> Inl e
           | Inr h' \<Rightarrow> copy_shape dst sp p h'))"

definition dense_storage_copy :: "addr \<Rightarrow> 'e heap \<Rightarrow> error + (addr \<times> 'e heap)" where
  "dense_storage_copy rhs h =
     and_then (get_storage h rhs) (\<lambda>R.
     and_then (storage_count_max_elements h (rank R) (shape R)) (\<lambda>cnt.
     let (shp, h1) = ALLOC_N_size_t (rank R) h in
     if shp = NULL then Inr (NULL, h1)
     else
       and_then (copy_shape shp (shape R) (rank R) h1) (\<lambda>h2.
       and_then (dense_storage_create (dtype R) shp (rank R) NULL 0 h2) (\<lambda>(lhs, h3).
       if lhs \<noteq> NULL \<and> cnt \<noteq> 0 then
         and_then (get_storage h3 lhs) (\<lambda>L.
         and_then (memcpy (elements L) 0 (elements R) 0 cnt h3) (\<lambda>h4.
         Inr (lhs, h4)))
       else Inr (lhs, h3)))))"

text \<open>
  The conversion loop \<^verbatim>\<open>while (count-- > 0) lhs_els[count] = rhs_els[count]\<close> of the
  template instance, with \<^verbatim>\<open>DType* rhs_els\<close> and \<^verbatim>\<open>NewDType* lhs_els\<close>. The two
  element types, their sizes and the conversion between them are in absent headers:
  \<open>asg k sb db\<close> is the effect of the assignment of the instance at index \<open>k\<close>, the
  new cells of the destination buffer, given the cells \<open>sb\<close> of the source buffer and
  the cells \<open>db\<close> of the destination buffer (an error where the access leaves a buffer).
\<close>

fun cast_loop ::
  "(nat \<Rightarrow> 'e list \<Rightarrow> 'e list \<Rightarrow> error + 'e list) \<Rightarrow> addr \<Rightarrow> addr \<Rightarrow> nat \<Rightarrow> 'e heap
     \<Rightarrow> error + 'e heap" where
  "cast_loop asg lhs_els rhs_els 0 h = Inr h"
| "cast_loop asg lhs_els rhs_els (Suc k) h =
     (case buffers h rhs_els of
        None \<Rightarrow> Inl BadPointer
      | Some sb \<Rightarrow>
          (case buffers h lhs_els of
             None \<Rightarrow> Inl BadPointer
           | Some db \<Rightarrow>
               (case asg k sb db of
                  Inl e \<Rightarrow> Inl e
                | Inr db' \<Rightarrow>
                    cast_loop asg lhs_els rhs_els k
                      (h\<lparr>buffers := (buffers h)(lhs_els \<mapsto> db')\<rparr>))))"

definition dense_storage_cast_copy_template ::
  "(nat \<Rightarrow> 'e list \<Rightarrow> 'e list \<Rightarrow> error + 'e list) \<Rightarrow> addr \<Rightarrow> dtype_t \<Rightarrow> 'e heap
     \<Rightarrow> error + (addr \<times> 'e heap)" where
  "dense_storage_cast_copy_template asg rhs new_dtype h =
     and_then (get_storage h rhs) (\<lambda>R.
     and_then (storage_count_max_elements h (rank R) (shape R)) (\<lambda>cnt.
     let (shp, h1) = ALLOC_N_size_t (rank R) h in
     if shp = NULL then Inr (NULL, h1)
     else
       and_then (copy_shape shp (shape R) (rank R) h1) (\<lambda>h2.
       and_then (dense_storage_create new_dtype shp (rank R) NULL 0 h2) (\<lambda>(lhs, h3).
       and_then (get_storage h3 lhs) (\<lambda>L.
       if lhs \<noteq> NULL \<and> cnt \<noteq> 0 then
         if dtype L = dtype R then
           and_then (memcpy (elements L) 0 (elements R) 0 cnt h3) (\<lambda>h4. Inr (lhs, h4))
         else
           and_then (cast_loop asg (elements L) (elements R) cnt h3) (\<lambda>h4. Inr (lhs, h4))
       else Inr (lhs, h3))))))"

text \<open>
  \<^verbatim>\<open>dense_storage_cast_copy\<close> calls \<^verbatim>\<open>ttable[new_dtype][rhs->dtype]\<close>. The table is
  built by \<^verbatim>\<open>LR_DTYPE_TEMPLATE_TABLE\<close>, the macro of \<^verbatim>\<open>dense_storage_eqeq\<close>, where
  the entry \<^verbatim>\<open>[ld][rd]\<close> is the instance whose first type parameter is the element type
  of \<open>ld\<close>. In the same way the entry \<^verbatim>\<open>[new_dtype][rhs->dtype]\<close> is the instance whose
  first type parameter, \<^verbatim>\<open>DType\<close>, is the element type of \<open>new_dtype\<close> and whose second,
  \<^verbatim>\<open>NewDType\<close>, is the element type of \<^verbatim>\<open>rhs->dtype\<close>: its loop reads the source
  buffer as an array of the new type and writes the destination buffer as an array of the
  source type. \<open>assign nd d\<close> is the assignment of the entry \<^verbatim>\<open>[nd][d]\<close>.
\<close>

definition dense_storage_cast_copy ::
  "(dtype_t \<Rightarrow> dtype_t \<Rightarrow> nat \<Rightarrow> 'e list \<Rightarrow> 'e list \<Rightarrow> error + 'e list) \<Rightarrow> addr \<Rightarrow> dtype_t
     \<Rightarrow> 'e heap \<Rightarrow> error + (addr \<times> 'e heap)" where
  "dense_storage_cast_copy assign rhs new_dtype h =
     and_then (get_storage h rhs) (\<lambda>R.
     dense_storage_cast_copy_template (assign new_dtype (dtype R)) rhs new_dtype h)"

subsection \<open>Well-formed stores\<close>

text \<open>
  The allocator hands out addresses from \<open>next_addr\<close> upwards: nothing lives at
  \<open>NULL\<close> or at an address not yet handed out.
\<close>

definition heap_wf :: "'e heap \<Rightarrow> bool" where
  "heap_wf h \<longleftrightarrow>
     0 < next_addr h \<and>
     (\<forall>a. a = NULL \<or> next_addr h \<le> a \<longrightarrow>
        storages h a = None \<and> arrays h a = None \<and> buffers h a = None)"

text \<open>
  \<open>allocs_succeed n h\<close>: the next \<open>n\<close> allocation calls return an address.
\<close>

definition head_ok :: "bool list \<Rightarrow> bool" where
  "head_ok plan = (case plan of [] \<Rightarrow> True | ok # _ \<Rightarrow> ok)"

definition allocs_succeed :: "nat \<Rightarrow> 'e heap \<Rightarrow> bool" where
  "allocs_succeed n h \<longleftrightarrow> False \<notin> set (take n (alloc_plan h))"

text \<open>
  The recursive equations of the loops are unfolded only where a proof asks for it.
\<close>

declare pos_inner.simps [simp del] tile_loop.simps [simp del] eqeq_loop.simps [simp del]

subsection \<open>Example stores\<close>

text \<open>
  The element operators used in the examples: integer elements compared by value,
  whatever the dtypes, and complex elements stored as complex structs.
\<close>

definition ne_int :: "dtype_t \<Rightarrow> dtype_t \<Rightarrow> int \<Rightarrow> int \<Rightarrow> bool" where
  "ne_int ld rd x y \<longleftrightarrow> x \<noteq> y"

definition ne_complex :: "dtype_t \<Rightarrow> int Complex \<Rightarrow> int Complex \<Rightarrow> bool" where
  "ne_complex d x y \<longleftrightarrow> x \<noteq> y"

definition as_complex :: "dtype_t \<Rightarrow> int Complex \<Rightarrow> int Complex" where
  "as_complex d c = c"

text \<open>
  An assignment for integer elements of one size that would store the source element
  plus 1.
\<close>

definition assign_succ ::
  "dtype_t \<Rightarrow> dtype_t \<Rightarrow> nat \<Rightarrow> int list \<Rightarrow> int list \<Rightarrow> error + int list" where
  "assign_succ nd d k sb db =
     (if k < length sb \<and> k < length db then Inr (db[k := sb ! k + 1]) else Inl OutOfBounds)"

definition junk0 :: DENSE_STORAGE where
  "junk0 = \<lparr>dtype = RUBYOBJ, rank = 0, shape = 0, offset = 0, elements = 0, count = 0, src = 0\<rparr>"

text \<open>
  A 3 by 4 root at address 1 with its buffer at address 4, a 2 by 2 view of it at
  address 5 with offset \<open>[1, 1]\<close>, and the coordinates \<open>[5, 7]\<close> at address 8.
\<close>

definition view_heap :: "int heap" where
  "view_heap =
     \<lparr>storages = [1 \<mapsto> \<lparr>dtype = OTHER 3, rank = 2, shape = 2, offset = 3, elements = 4,
                         count = 2, src = 1\<rparr>,
                  5 \<mapsto> \<lparr>dtype = OTHER 3, rank = 2, shape = 6, offset = 7, elements = 4,
                         count = 0, src = 1\<rparr>],
      arrays = [2 \<mapsto> [3, 4], 3 \<mapsto> [0, 0], 6 \<mapsto> [2, 2], 7 \<mapsto> [1, 1], 8 \<mapsto> [5, 7]],
      buffers = [4 \<mapsto> [0, 1, 2, 3, 4, 5, 6, 7, 8, 9, 10, 11]],
      next_addr = 9, alloc_plan = [], junk_storage = junk0, junk_size = 0, junk_cell = 0\<rparr>"

text \<open>
  A 3 by 4 root at address 1 and the coordinates \<open>[2^62, 1]\<close> at address 5.
\<close>

definition wrap_heap :: "int heap" where
  "wrap_heap =
     \<lparr>storages = [1 \<mapsto> \<lparr>dtype = OTHER 3, rank = 2, shape = 2, offset = 3, elements = 4,
                         count = 1, src = 1\<rparr>],
      arrays = [2 \<mapsto> [3, 4], 3 \<mapsto> [0, 0], 5 \<mapsto> [4611686018427387904, 1]],
      buffers = [4 \<mapsto> [0, 1, 2, 3, 4, 5, 6, 7, 8, 9, 10, 11]],
      next_addr = 6, alloc_plan = [], junk_storage = junk0, junk_size = 0, junk_cell = 0\<rparr>"

text \<open>
  Two one-dimensional storages of 3 elements, of different dtypes, whose buffers
  differ at index 1.
\<close>

definition small_heap :: "int heap" where
  "small_heap =
     \<lparr>storages = [1 \<mapsto> \<lparr>dtype = OTHER 0, rank = 1, shape = 2, offset = 3, elements = 4,
                         count = 1, src = 1\<rparr>,
                  5 \<mapsto> \<lparr>dtype = OTHER 1, rank = 1, shape = 6, offset = 7, elements = 8,
                         count = 1, src = 5\<rparr>],
      arrays = [2 \<mapsto> [3], 3 \<mapsto> [0], 6 \<mapsto> [3], 7 \<mapsto> [0]],
      buffers = [4 \<mapsto> [1, 2, 3], 8 \<mapsto> [1, 5, 3]],
      next_addr = 9, alloc_plan = [], junk_storage = junk0, junk_size = 0, junk_cell = 0\<rparr>"

text \<open>
  Two one-dimensional storages of 3000000000 elements each, all 0 in the left one and
  all 1 in the right one.
\<close>

definition big_left :: "int list" where
  "big_left = replicate 3000000000 0"

definition big_right :: "int list" where
  "big_right = replicate 3000000000 1"

definition big_heap :: "int heap" where
  "big_heap =
     \<lparr>storages = [1 \<mapsto> \<lparr>dtype = OTHER 0, rank = 1, shape = 2, offset = 3, elements = 4,
                         count = 1, src = 1\<rparr>,
                  5 \<mapsto> \<lparr>dtype = OTHER 0, rank = 1, shape = 6, offset = 7, elements = 8,
                         count = 1, src = 5\<rparr>],
      arrays = [2 \<mapsto> [3000000000], 3 \<mapsto> [0], 6 \<mapsto> [3000000000], 7 \<mapsto> [0]],
      buffers = [4 \<mapsto> big_left, 8 \<mapsto> big_right],
      next_addr = 9, alloc_plan = [], junk_storage = junk0, junk_size = 0, junk_cell = 0\<rparr>"


text \<open>
  A store with one empty 0 by 3 root, at address 1, that has no buffer.
\<close>

definition empty_heap :: "int heap" where
  "empty_heap =
     \<lparr>storages = [1 \<mapsto> \<lparr>dtype = OTHER 0, rank = 2, shape = 2, offset = 3, elements = 0,
                         count = 1, src = 1\<rparr>],
      arrays = [2 \<mapsto> [0, 3], 3 \<mapsto> [0, 0]],
      buffers = Map.empty,
      next_addr = 4, alloc_plan = [], junk_storage = junk0, junk_size = 0, junk_cell = 0\<rparr>"

text \<open>
  A store with a 4 by 4 root at address 1 and the coordinates and lengths of two slices,
  at addresses 5 and 6 and at addresses 7 and 8.
\<close>

definition root_heap :: "int heap" where
  "root_heap =
     \<lparr>storages = [1 \<mapsto> \<lparr>dtype = OTHER 0, rank = 2, shape = 2, offset = 3, elements = 4,
                         count = 1, src = 1\<rparr>],
      arrays = [2 \<mapsto> [4, 4], 3 \<mapsto> [0, 0], 5 \<mapsto> [1, 1], 6 \<mapsto> [2, 2], 7 \<mapsto> [0, 0],
                8 \<mapsto> [1, 2]],
      buffers = [4 \<mapsto> [0, 1, 2, 3, 4, 5, 6, 7, 8, 9, 10, 11, 12, 13, 14, 15]],
      next_addr = 9, alloc_plan = [], junk_storage = junk0, junk_size = 0, junk_cell = 0\<rparr>"

text \<open>
  \<open>root_heap\<close> after a 2 by 2 view at offset \<open>[1, 1]\<close> has been taken from the root
  (the view is at address 9), and after a 1 by 2 view has then been taken from that view
  (the second view is at address 10).
\<close>

definition root_heap_one_view :: "int heap" where
  "root_heap_one_view =
     \<lparr>storages = [1 \<mapsto> \<lparr>dtype = OTHER 0, rank = 2, shape = 2, offset = 3, elements = 4,
                         count = 2, src = 1\<rparr>,
                  9 \<mapsto> \<lparr>dtype = OTHER 0, rank = 2, shape = 6, offset = 5, elements = 4,
                         count = 0, src = 1\<rparr>],
      arrays = [2 \<mapsto> [4, 4], 3 \<mapsto> [0, 0], 5 \<mapsto> [1, 1], 6 \<mapsto> [2, 2], 7 \<mapsto> [0, 0],
                8 \<mapsto> [1, 2]],
      buffers = [4 \<mapsto> [0, 1, 2, 3, 4, 5, 6, 7, 8, 9, 10, 11, 12, 13, 14, 15]],
      next_addr = 10, alloc_plan = [], junk_storage = junk0, junk_size = 0, junk_cell = 0\<rparr>"

definition root_heap_two_views :: "int heap" where
  "root_heap_two_views =
     \<lparr>storages = [1 \<mapsto> \<lparr>dtype = OTHER 0, rank = 2, shape = 2, offset = 3, elements = 4,
                         count = 2, src = 1\<rparr>,
                  9 \<mapsto> \<lparr>dtype = OTHER 0, rank = 2, shape = 6, offset = 5, elements = 4,
                         count = 1, src = 1\<rparr>,
                  10 \<mapsto> \<lparr>dtype = OTHER 0, rank = 2, shape = 8, offset = 7, elements = 4,
                         count = 0, src = 9\<rparr>],
      arrays = [2 \<mapsto> [4, 4], 3 \<mapsto> [0, 0], 5 \<mapsto> [1, 1], 6 \<mapsto> [2, 2], 7 \<mapsto> [0, 0],
                8 \<mapsto> [1, 2]],
      buffers = [4 \<mapsto> [0, 1, 2, 3, 4, 5, 6, 7, 8, 9, 10, 11, 12, 13, 14, 15]],
      next_addr = 11, alloc_plan = [], junk_storage = junk0, junk_size = 0, junk_cell = 0\<rparr>"

text \<open>
  A store with one 2 by 2 complex matrix, at address 1, with the given elements in
  row-major order; a Hermitian matrix; and a matrix that is not Hermitian.
\<close>

definition matrix_heap :: "int Complex list \<Rightarrow> int Complex heap" where
  "matrix_heap els =
     \<lparr>storages = [1 \<mapsto> \<lparr>dtype = COMPLEX64, rank = 2, shape = 2, offset = 3, elements = 4,
                         count = 1, src = 1\<rparr>],
      arrays = [2 \<mapsto> [2, 2], 3 \<mapsto> [0, 0]],
      buffers = [4 \<mapsto> els],
      next_addr = 5, alloc_plan = [], junk_storage = junk0, junk_size = 0,
      junk_cell = Complex 0 0\<rparr>"

definition hermitian_matrix :: "int Complex list" where
  "hermitian_matrix = [Complex 1 0, Complex 2 1, Complex 2 (- 1), Complex 5 0]"

definition skewed_matrix :: "int Complex list" where
  "skewed_matrix = [Complex 0 0, Complex 5 0, Complex 7 0, Complex 5 0]"





text \<open>
  An instance of the assignment for two integer dtypes on a little-endian machine: dtype
  \<open>OTHER 1\<close> has 16-bit elements and dtype \<open>OTHER 2\<close> has 32-bit elements; a cell holds
  the bit pattern of its element as a natural number. At the table entry
  \<^verbatim>\<open>[OTHER 2][OTHER 1]\<close> the source buffer, which holds 16-bit elements, is read as an
  array of 32-bit elements: element \<open>k\<close> is made of the cells \<open>2k\<close> (low half) and
  \<open>2k+1\<close> (high half). The value is converted to 16 bits and stored as element \<open>k\<close> of
  an array of 16-bit elements in the destination buffer, which holds 32-bit cells: it
  becomes the low (even \<open>k\<close>) or high (odd \<open>k\<close>) half of the cell \<open>k div 2\<close>.
\<close>

definition assign_halfwords ::
  "dtype_t \<Rightarrow> dtype_t \<Rightarrow> nat \<Rightarrow> nat list \<Rightarrow> nat list \<Rightarrow> error + nat list" where
  "assign_halfwords nd d k sb db =
     (if 2 * k + 1 < length sb \<and> k div 2 < length db then
        (let v = sb ! (2 * k) + 65536 * sb ! (2 * k + 1);
             w = v mod 65536;
             c = db ! (k div 2)
         in Inr (db[k div 2 := (if even k then w + 65536 * (c div 65536)
                                else c mod 65536 + 65536 * w)]))
      else Inl OutOfBounds)"

text \<open>
  A 3 by 4 root of 16-bit elements \<open>0, \<dots>, 11\<close> at address 1 and a 2 by 2 view of it
  with offset \<open>[1, 1]\<close> at address 5; and the store after \<^verbatim>\<open>dense_storage_cast_copy\<close>
  of the view to the 32-bit dtype: the new root is at address 9, with its shape at 8,
  its offset at 10 and its buffer at 11.
\<close>

definition halfword_heap :: "nat heap" where
  "halfword_heap =
     \<lparr>storages = [1 \<mapsto> \<lparr>dtype = OTHER 1, rank = 2, shape = 2, offset = 3, elements = 4,
                         count = 2, src = 1\<rparr>,
                  5 \<mapsto> \<lparr>dtype = OTHER 1, rank = 2, shape = 6, offset = 7, elements = 4,
                         count = 0, src = 1\<rparr>],
      arrays = [2 \<mapsto> [3, 4], 3 \<mapsto> [0, 0], 6 \<mapsto> [2, 2], 7 \<mapsto> [1, 1]],
      buffers = [4 \<mapsto> [0, 1, 2, 3, 4, 5, 6, 7, 8, 9, 10, 11]],
      next_addr = 8, alloc_plan = [], junk_storage = junk0, junk_size = 0, junk_cell = 0\<rparr>"

definition halfword_heap_cast :: "nat heap" where
  "halfword_heap_cast =
     \<lparr>storages = [1 \<mapsto> \<lparr>dtype = OTHER 1, rank = 2, shape = 2, offset = 3, elements = 4,
                         count = 2, src = 1\<rparr>,
                  5 \<mapsto> \<lparr>dtype = OTHER 1, rank = 2, shape = 6, offset = 7, elements = 4,
                         count = 0, src = 1\<rparr>,
                  9 \<mapsto> \<lparr>dtype = OTHER 2, rank = 2, shape = 8, offset = 10, elements = 11,
                         count = 1, src = 9\<rparr>],
      arrays = [2 \<mapsto> [3, 4], 3 \<mapsto> [0, 0], 6 \<mapsto> [2, 2], 7 \<mapsto> [1, 1], 8 \<mapsto> [2, 2],
                10 \<mapsto> [0, 0]],
      buffers = [4 \<mapsto> [0, 1, 2, 3, 4, 5, 6, 7, 8, 9, 10, 11],
                 11 \<mapsto> [131072, 393220, 0, 0]],
      next_addr = 12, alloc_plan = [], junk_storage = junk0, junk_size = 0, junk_cell = 0\<rparr>"

subsection \<open>Definitions used to state the properties\<close>

text \<open>
  The conversion loop on the cells alone: the destination cells after the assignments at
  the indices \<open>k - 1\<close> down to 0.
\<close>

fun cast_cells ::
  "(nat \<Rightarrow> 'e list \<Rightarrow> 'e list \<Rightarrow> error + 'e list) \<Rightarrow> 'e list \<Rightarrow> nat \<Rightarrow> 'e list
     \<Rightarrow> error + 'e list" where
  "cast_cells asg sb 0 db = Inr db"
| "cast_cells asg sb (Suc k) db =
     (case asg k sb db of Inl e \<Rightarrow> Inl e | Inr db' \<Rightarrow> cast_cells asg sb k db')"

text \<open>
  The conjugate of the spec: the imaginary part negated.
\<close>

definition conjugate :: "'a::uminus Complex \<Rightarrow> 'a Complex" where
  "conjugate c = Complex (c_r c) (- c_i c)"

text \<open>
  The manual full-buffer copy of the spec: the first \<open>n\<close> elements of a buffer, copied
  one by one.
\<close>

fun manual_buffer_copy :: "'e list \<Rightarrow> nat \<Rightarrow> 'e list" where
  "manual_buffer_copy B 0 = []"
| "manual_buffer_copy B (Suc n) = manual_buffer_copy B n @ [B ! n]"

text \<open>
  The store after a successful copy of a storage \<open>R\<close> with the extents \<open>ext\<close> into a new
  root of dtype \<open>dt\<close>: the shape array, the struct, the offset array and, unless the
  element count is zero, a buffer holding \<open>cells\<close>, at the next four addresses.
\<close>

definition copied_heap :: "'e heap \<Rightarrow> DENSE_STORAGE \<Rightarrow> dtype_t \<Rightarrow> nat list \<Rightarrow> 'e list \<Rightarrow> 'e heap" where
  "copied_heap h R dt ext cells =
     (let a = next_addr h in
      if prod_list (take (rank R) ext) = 0 then
        h\<lparr>storages := (storages h)(Suc a \<mapsto>
              \<lparr>dtype = dt, rank = rank R, shape = a, offset = Suc (Suc a), elements = NULL,
               count = 1, src = Suc a\<rparr>),
          arrays := (arrays h)(a \<mapsto> take (rank R) ext, Suc (Suc a) \<mapsto> replicate (rank R) 0),
          next_addr := Suc (Suc (Suc a)),
          alloc_plan := tl (tl (tl (alloc_plan h)))\<rparr>
      else
        h\<lparr>storages := (storages h)(Suc a \<mapsto>
              \<lparr>dtype = dt, rank = rank R, shape = a, offset = Suc (Suc a),
               elements = Suc (Suc (Suc a)), count = 1, src = Suc a\<rparr>),
          arrays := (arrays h)(a \<mapsto> take (rank R) ext, Suc (Suc a) \<mapsto> replicate (rank R) 0),
          buffers := (buffers h)(Suc (Suc (Suc a)) \<mapsto> cells),
          next_addr := Suc (Suc (Suc (Suc a))),
          alloc_plan := tl (tl (tl (tl (alloc_plan h))))\<rparr>)"

section \<open>Basic facts\<close>

lemma and_then_simps [simp]:
  "and_then (Inl e) f = Inl e"
  "and_then (Inr x) f = f x"
  by (simp_all add: and_then_def)

lemma get_storage_Some [simp]: "storages h p = Some S \<Longrightarrow> get_storage h p = Inr S"
  by (simp add: get_storage_def)

lemma read_array_Some:
  "arrays h p = Some xs \<Longrightarrow> k < length xs \<Longrightarrow> read_array h p k = Inr (xs ! k)"
  by (simp add: read_array_def)

section \<open>Layout and indexing\<close>

lemma size_t_wrap_simps:
  "size_t_wrap (size_t_wrap x * d) = size_t_wrap (x * d)"
  "size_t_wrap (size_t_wrap x + size_t_wrap y) = size_t_wrap (x + y)"
  by (simp_all add: size_t_wrap_def mod_mult_left_eq mod_add_eq)

lemma pos_inner_prod:
  assumes "storages h (src S) = Some R" "arrays h (shape R) = Some sh" "rank S \<le> length sh"
  shows "pos_inner h S l (size_t_wrap x) = Inr (size_t_wrap (x * (\<Prod>m = l..<rank S. sh ! m)))"
proof (induction "rank S - l" arbitrary: l x)
  case 0
  then show ?case by (subst pos_inner.simps) simp
next
  case (Suc n)
  then have l: "l < rank S" and n: "n = rank S - Suc l" by simp_all
  have rd: "read_array h (shape R) l = Inr (sh ! l)"
    using l assms by (simp add: read_array_Some)
  have "pos_inner h S l (size_t_wrap x) = pos_inner h S (Suc l) (size_t_wrap (x * sh ! l))"
    using l rd assms(1) by (subst pos_inner.simps) (simp add: size_t_wrap_simps)
  also have "\<dots> = Inr (size_t_wrap (x * sh ! l * (\<Prod>m = Suc l..<rank S. sh ! m)))"
    using n by (rule Suc.hyps(1))
  also have "x * sh ! l * (\<Prod>m = Suc l..<rank S. sh ! m) = x * (\<Prod>m = l..<rank S. sh ! m)"
    using l by (simp add: prod.atLeast_Suc_lessThan mult.assoc)
  finally show ?case .
qed

lemma pos_outer_numeral:
  "pos_outer h S slice (numeral n) outer = pos_outer h S slice (Suc (pred_numeral n)) outer"
  by (simp add: numeral_eq_Suc)

lemma pos_outer_sum:
  assumes "storages h (src S) = Some R" "arrays h (shape R) = Some sh" "rank S \<le> length sh"
    "arrays h (coords slice) = Some cs" "arrays h (offset S) = Some os"
  shows "k \<le> length cs \<Longrightarrow> k \<le> length os \<Longrightarrow>
         pos_outer h S slice k (size_t_wrap y) =
           Inr (size_t_wrap
                  (y + (\<Sum>n<k. (cs ! n + os ! n) * (\<Prod>m = Suc n..<rank S. sh ! m))))"
proof (induction k arbitrary: y)
  case 0
  then show ?case by simp
next
  case (Suc k)
  let ?t = "(cs ! k + os ! k) * (\<Prod>m = Suc k..<rank S. sh ! m)"
  have "pos_outer h S slice (Suc k) (size_t_wrap y) =
          pos_outer h S slice k (size_t_wrap (y + ?t))"
    using Suc.prems assms(4,5)
    by (simp add: read_array_Some pos_inner_prod [OF assms(1-3)] size_t_wrap_simps)
  also have "\<dots> = Inr (size_t_wrap
      (y + ?t + (\<Sum>n<k. (cs ! n + os ! n) * (\<Prod>m = Suc n..<rank S. sh ! m))))"
    using Suc.prems by (intro Suc.IH) simp_all
  finally show ?case by (simp add: lessThan_Suc add.assoc add.commute)
qed

text \<open>
  Claim C6, as amended. For a storage \<open>s\<close> (a root or a view) and a slice,
  \<^verbatim>\<open>dense_storage_pos\<close> returns the row-major sum over the dimensions \<open>k\<close> of
  \<open>(coords[k] + offset[k])\<close> times the product of the extents, after \<open>k\<close>, of the shape
  of \<open>s->src\<close>, reduced modulo \<open>2^64\<close>: the sum as \<^verbatim>\<open>size_t\<close> arithmetic computes
  it, and the sum itself whenever that is below \<open>2^64\<close>. Nothing relates the coordinates
  to the extents: no bound is checked. The hypotheses say only that the pointers involved
  point to arrays of at least \<open>rank\<close> entries.
\<close>

theorem pos_row_major:
  assumes "storages h s = Some S" "storages h (src S) = Some R"
    "arrays h (shape R) = Some sh" "rank S \<le> length sh"
    "arrays h (coords slice) = Some cs" "rank S \<le> length cs"
    "arrays h (offset S) = Some os" "rank S \<le> length os"
  shows "dense_storage_pos s slice h =
           Inr ((\<Sum>k<rank S. (cs ! k + os ! k) * (\<Prod>l = Suc k..<rank S. sh ! l)) mod 2 ^ 64)"
proof -
  have "pos_outer h S slice (rank S) (size_t_wrap 0) =
      Inr (size_t_wrap
             (0 + (\<Sum>k<rank S. (cs ! k + os ! k) * (\<Prod>l = Suc k..<rank S. sh ! l))))"
    using assms by (intro pos_outer_sum) auto
  then show ?thesis
    using assms(1) by (simp add: dense_storage_pos_def size_t_wrap_def)
qed

text \<open>
  At the view of \<open>view_heap\<close> and the coordinates \<open>[5, 7]\<close>, which lie outside the
  view and outside the root: \<open>(5 + 1) * 4 + (7 + 1) = 32\<close>, a position past the end of
  the 12-element buffer.
\<close>

theorem pos_row_major_witness:
  "dense_storage_pos 5 \<lparr>coords = 8, lens = 6, is_one_el = True\<rparr> view_heap = Inr 32"
  using pos_row_major [of view_heap 5
      "\<lparr>dtype = OTHER 3, rank = 2, shape = 6, offset = 7, elements = 4, count = 0, src = 1\<rparr>"
      "\<lparr>dtype = OTHER 3, rank = 2, shape = 2, offset = 3, elements = 4, count = 2, src = 1\<rparr>"
      "[3, 4]" "\<lparr>coords = 8, lens = 6, is_one_el = True\<rparr>" "[5, 7]" "[1, 1]"]
  by (simp add: view_heap_def lessThan_nat_numeral lessThan_Suc)

text \<open>
  Claim C6 as stated fails where the sum does not fit in a \<^verbatim>\<open>size_t\<close>. At the 3 by 4
  root of \<open>wrap_heap\<close> and the coordinates \<open>[2^62, 1]\<close> the row-major sum is
  \<open>2^62 * 4 + 1 = 2^64 + 1\<close>, and \<^verbatim>\<open>dense_storage_pos\<close> returns 1.
\<close>

theorem pos_wraps_counterexample:
  "dense_storage_pos 1 \<lparr>coords = 5, lens = 2, is_one_el = True\<rparr> wrap_heap = Inr 1 \<and>
   (4611686018427387904 + 0) * 4 + (1 + 0) = (18446744073709551617 :: nat)"
proof -
  have "dense_storage_pos 1 \<lparr>coords = 5, lens = 2, is_one_el = True\<rparr> wrap_heap = Inr 1"
    by (simp add: dense_storage_pos_def get_storage_def read_array_def wrap_heap_def
        pos_outer_numeral pos_inner.simps size_t_wrap_def)
  then show ?thesis by simp
qed

section \<open>Allocation\<close>

lemma take_address_eq:
  "take_address h =
     (if head_ok (alloc_plan h)
      then (next_addr h, h\<lparr>next_addr := Suc (next_addr h), alloc_plan := tl (alloc_plan h)\<rparr>)
      else (NULL, h\<lparr>alloc_plan := tl (alloc_plan h)\<rparr>))"
  by (cases h) (simp add: take_address_def head_ok_def split: list.splits)

lemma head_ok_take:
  "False \<notin> set (take (Suc n) plan) \<Longrightarrow> head_ok plan"
  "False \<notin> set (take (Suc n) plan) \<Longrightarrow> False \<notin> set (take n (tl plan))"
  by (cases plan; simp add: head_ok_def)+

lemma allocs_succeed_1: "allocs_succeed 1 h \<Longrightarrow> head_ok (alloc_plan h)"
  using head_ok_take(1) [of 0 "alloc_plan h"] by (simp add: allocs_succeed_def)

lemma allocs_succeed_3:
  assumes "allocs_succeed 3 h"
  shows "head_ok (alloc_plan h)" "head_ok (tl (alloc_plan h))" "head_ok (tl (tl (alloc_plan h)))"
proof -
  have a: "False \<notin> set (take (Suc (Suc (Suc 0))) (alloc_plan h))"
    using assms by (simp add: allocs_succeed_def numeral_3_eq_3)
  show "head_ok (alloc_plan h)" using a by (rule head_ok_take(1))
  have b: "False \<notin> set (take (Suc (Suc 0)) (tl (alloc_plan h)))" using a by (rule head_ok_take(2))
  show "head_ok (tl (alloc_plan h))" using b by (rule head_ok_take(1))
  have c: "False \<notin> set (take (Suc 0) (tl (tl (alloc_plan h))))" using b by (rule head_ok_take(2))
  show "head_ok (tl (tl (alloc_plan h)))" using c by (rule head_ok_take(1))
qed

lemma heap_wf_fresh:
  assumes "heap_wf h" "next_addr h \<le> a"
  shows "storages h a = None" "arrays h a = None" "buffers h a = None" "a \<noteq> NULL"
  using assms by (auto simp: heap_wf_def NULL_def)

lemma heap_wf_NULL:
  assumes "heap_wf h"
  shows "storages h NULL = None" "arrays h NULL = None" "buffers h NULL = None"
  using assms by (auto simp: heap_wf_def)

lemma scme_allocated:
  "storage_count_max_elements h rk sh = Inr cnt \<Longrightarrow> rk = 0 \<or> arrays h sh \<noteq> None"
  by (auto simp: storage_count_max_elements_def split: if_splits option.splits)

lemma update_storage_Some:
  "storages h p = Some S \<Longrightarrow>
   update_storage p f h = Inr (h\<lparr>storages := (storages h)(p \<mapsto> f S)\<rparr>)"
  by (simp add: update_storage_def)

section \<open>Creation\<close>






lemma create_no_payload:
  assumes wf: "heap_wf h"
    and oks: "head_ok (alloc_plan h)" "head_ok (tl (alloc_plan h))"
      "cnt \<noteq> 0 \<longrightarrow> head_ok (tl (tl (alloc_plan h)))"
    and cnt: "storage_count_max_elements h rk sh = Inr cnt"
  shows "dense_storage_create dt sh rk NULL 0 h =
     Inr (next_addr h,
       if cnt = 0 then
         h\<lparr>storages := (storages h)(next_addr h \<mapsto>
               \<lparr>dtype = dt, rank = rk, shape = sh, offset = Suc (next_addr h), elements = NULL,
                count = 1, src = next_addr h\<rparr>),
           arrays := (arrays h)(Suc (next_addr h) \<mapsto> replicate rk 0),
           next_addr := Suc (Suc (next_addr h)),
           alloc_plan := tl (tl (alloc_plan h))\<rparr>
       else
         h\<lparr>storages := (storages h)(next_addr h \<mapsto>
               \<lparr>dtype = dt, rank = rk, shape = sh, offset = Suc (next_addr h),
                elements = Suc (Suc (next_addr h)), count = 1, src = next_addr h\<rparr>),
           arrays := (arrays h)(Suc (next_addr h) \<mapsto> replicate rk 0),
           buffers := (buffers h)(Suc (Suc (next_addr h)) \<mapsto> replicate cnt (junk_cell h)),
           next_addr := Suc (Suc (Suc (next_addr h))),
           alloc_plan := tl (tl (tl (alloc_plan h)))\<rparr>)"
proof -
  have a0: "next_addr h \<noteq> NULL" using heap_wf_fresh(4) [OF wf le_refl] .
  have sh: "rk = 0 \<or> sh \<noteq> Suc (next_addr h)"
    using scme_allocated [OF cnt] heap_wf_fresh(2) [OF wf, of "Suc (next_addr h)"] by auto
  have cnt': "\<And>h'. arrays h' = (arrays h)(Suc (next_addr h) \<mapsto> replicate rk 0) \<Longrightarrow>
       storage_count_max_elements h' rk sh = Inr cnt"
    using sh cnt by (auto simp: storage_count_max_elements_def)
  obtain d r s1 o1 e1 c1 s2 where j: "junk_storage h =
      \<lparr>dtype = d, rank = r, shape = s1, offset = o1, elements = e1, count = c1, src = s2\<rparr>"
    by (cases "junk_storage h") auto
  show ?thesis
    using oks a0
    by (simp add: dense_storage_create_def ALLOC_def calloc_size_t_def ALLOC_N_char_def
        take_address_eq update_storage_Some cnt' NULL_def j)
qed





section \<open>Equality\<close>

lemma read_cell_Some:
  "buffers h p = Some xs \<Longrightarrow> k < length xs \<Longrightarrow> read_cell h p k = Inr (xs ! k)"
  by (simp add: read_cell_def)

lemma eqeq_loop_nonpos: "index \<le> 0 \<Longrightarrow> eqeq_loop ne h le re index = Inr True"
  by (subst eqeq_loop.simps) simp

lemma eqeq_loop_result:
  assumes "buffers h le = Some lb" "buffers h re = Some rb"
  shows "nat index \<le> length lb \<Longrightarrow> nat index \<le> length rb \<Longrightarrow>
         eqeq_loop ne h le re index = Inr (\<forall>k<nat index. \<not> ne (lb ! k) (rb ! k))"
proof (induction "nat index" arbitrary: index)
  case 0
  then show ?case by (simp add: eqeq_loop_nonpos)
next
  case (Suc n)
  then have pos: "0 < index" and n: "n = nat (index - 1)" by linarith+
  have rl: "read_cell h le (nat (index - 1)) = Inr (lb ! n)"
    and rr: "read_cell h re (nat (index - 1)) = Inr (rb ! n)"
    using Suc.prems Suc.hyps(2) n assms by (simp_all add: read_cell_Some)
  have IH: "eqeq_loop ne h le re (index - 1) = Inr (\<forall>k<n. \<not> ne (lb ! k) (rb ! k))"
    using Suc.hyps(1) [of "index - 1"] Suc.prems n Suc.hyps(2) by simp
  have "nat index = Suc n" using Suc.hyps(2) by simp
  then show ?case
    using pos rl rr IH by (subst eqeq_loop.simps) (auto simp: less_Suc_eq)
qed

lemma size_t_to_int_small: "n < 2 ^ 31 \<Longrightarrow> size_t_to_int n = int n"
  by (simp add: size_t_to_int_def)

text \<open>
  For storages \<open>left\<close> and \<open>right\<close> where the element count \<open>n\<close> of \<open>left\<close> is below
  \<open>2^31\<close> and, unless \<open>n = 0\<close>, both buffers hold at least \<open>n\<close> elements,
  \<^verbatim>\<open>dense_storage_eqeq\<close> compares the first \<open>n\<close> positions with the \<^verbatim>\<open>!=\<close> of the pair
  \<open>(left->dtype, right->dtype)\<close>: the result is \<^verbatim>\<open>true\<close> exactly when no compared pair
  differs, and so \<^verbatim>\<open>true\<close> when \<open>n = 0\<close>, whatever the dtypes and the buffers.
\<close>

lemma eqeq_compares_left_count:
  assumes "storages h left = Some L" "storages h right = Some R"
    "storage_count_max_elements h (rank L) (shape L) = Inr n"
    "n < 2 ^ 31"
    "n = 0 \<or> (buffers h (elements L) = Some lb \<and> buffers h (elements R) = Some rb \<and>
               n \<le> length lb \<and> n \<le> length rb)"
  shows "dense_storage_eqeq ne left right h =
           Inr (\<forall>k<n. \<not> ne (dtype L) (dtype R) (lb ! k) (rb ! k))"
proof (cases "n = 0")
  case True
  then show ?thesis
    using assms(1-3)
    by (simp add: dense_storage_eqeq_def dense_storage_eqeq_template_def size_t_to_int_def
        eqeq_loop_nonpos)
next
  case False
  then have b: "buffers h (elements L) = Some lb" "buffers h (elements R) = Some rb"
    "n \<le> length lb" "n \<le> length rb"
    using assms(5) by auto
  show ?thesis
    using assms(1-4) b eqeq_loop_result [OF b(1,2), of "int n" "ne (dtype L) (dtype R)"]
    by (simp add: dense_storage_eqeq_def dense_storage_eqeq_template_def size_t_to_int_small)
qed

text \<open>
  At two 3-element storages of different dtypes that differ at index 1.
\<close>

lemma eqeq_compares_left_count_example:
  "dense_storage_eqeq ne_int 1 5 small_heap = Inr False"
proof -
  have "\<not> (\<forall>k<3::nat. \<not> ([1, 2, 3 :: int] ! k \<noteq> [1, 5, 3] ! k))"
    by (auto intro!: exI [of _ 1])
  then show ?thesis
    using eqeq_compares_left_count [of small_heap 1
      "\<lparr>dtype = OTHER 0, rank = 1, shape = 2, offset = 3, elements = 4, count = 1, src = 1\<rparr>" 5
      "\<lparr>dtype = OTHER 1, rank = 1, shape = 6, offset = 7, elements = 8, count = 1, src = 5\<rparr>"
      3 "[1, 2, 3]" "[1, 5, 3]" ne_int]
    by (simp add: small_heap_def storage_count_max_elements_def ne_int_def)
qed

text \<open>
  Claim C5: \<^verbatim>\<open>dense_storage_eqeq\<close> compares the first \<open>product(left.shape)\<close> positions
  and returns \<^verbatim>\<open>false\<close> when some compared pair differs. The code does not do so for a
  count of \<open>2^31\<close> or more. The loop index is an \<^verbatim>\<open>int\<close> that receives the
  \<^verbatim>\<open>size_t\<close> count; the count 3000000000 becomes the negative index \<open>-1294967296\<close>,
  the loop body never runs, and the function returns \<^verbatim>\<open>true\<close> for two vectors of
  3000000000 elements that differ at every position.
\<close>

theorem eqeq_int_index_skips_elements:
  "storage_count_max_elements big_heap 1 2 = Inr 3000000000 \<and>
   length big_left = 3000000000 \<and> length big_right = 3000000000 \<and>
   ne_int (OTHER 0) (OTHER 0) (big_left ! 0) (big_right ! 0) \<and>
   dense_storage_eqeq ne_int 1 5 big_heap = Inr True"
proof -
  have "storage_count_max_elements big_heap 1 2 = Inr 3000000000"
    by (simp add: storage_count_max_elements_def big_heap_def)
  moreover have "length big_left = 3000000000" "length big_right = 3000000000"
    by (simp_all add: big_left_def big_right_def)
  moreover have "ne_int (OTHER 0) (OTHER 0) (big_left ! 0) (big_right ! 0)"
    by (simp add: big_left_def big_right_def ne_int_def)
  moreover have "dense_storage_eqeq ne_int 1 5 big_heap = Inr True"
    by (simp add: dense_storage_eqeq_def dense_storage_eqeq_template_def get_storage_def
        storage_count_max_elements_def big_heap_def size_t_to_int_def eqeq_loop_nonpos)
  ultimately show ?thesis by simp
qed

section \<open>Example stores are well formed\<close>

lemma small_heap_wf: "heap_wf small_heap" "allocs_succeed n small_heap"
  by (auto simp: heap_wf_def allocs_succeed_def small_heap_def NULL_def)

lemma view_heap_wf: "heap_wf view_heap" "allocs_succeed n view_heap"
  by (auto simp: heap_wf_def allocs_succeed_def view_heap_def NULL_def)

lemma empty_heap_wf: "heap_wf empty_heap" "allocs_succeed n empty_heap"
  by (auto simp: heap_wf_def allocs_succeed_def empty_heap_def NULL_def)

lemma root_heap_wf: "heap_wf root_heap" "allocs_succeed n root_heap"
  by (auto simp: heap_wf_def allocs_succeed_def root_heap_def NULL_def)

section \<open>Views\<close>

lemma get_view:
  assumes wf: "heap_wf h" and ok: "allocs_succeed 1 h"
    and R: "storages h s = Some S" and sl: "\<not> is_one_el slice"
  shows "dense_storage_get s slice h =
     Inr (StoragePtr (next_addr h),
       h\<lparr>storages := (storages h)
             (next_addr h \<mapsto> (junk_storage h)\<lparr>rank := rank S, shape := lens slice,
                 dtype := dtype S, offset := coords slice, elements := elements S, src := s\<rparr>,
              s \<mapsto> S\<lparr>count := count S + 1\<rparr>),
         next_addr := Suc (next_addr h),
         alloc_plan := tl (alloc_plan h)\<rparr>)"
proof -
  have a0: "next_addr h \<noteq> NULL" using heap_wf_fresh(4) [OF wf le_refl] .
  have ne: "s \<noteq> next_addr h" using R heap_wf_fresh(1) [OF wf le_refl] by auto
  have sw: "\<And>f x y. f(next_addr h \<mapsto> x, s \<mapsto> y) = f(s \<mapsto> y, next_addr h \<mapsto> x)"
    using ne by (simp add: fun_upd_twist)
  show ?thesis
    using allocs_succeed_1 [OF ok] a0 ne R sl
    by (simp add: dense_storage_get_def ALLOC_def take_address_eq update_storage_Some NULL_def sw)
qed

lemma get_preserves_wf:
  assumes "heap_wf h" "allocs_succeed 1 h" "storages h s = Some S"
    "dense_storage_get s slice h = Inr (r, h')"
  shows "heap_wf h'"
proof (cases "is_one_el slice")
  case True
  then show ?thesis
    using assms by (auto simp: dense_storage_get_def and_then_def split: sum.splits)
next
  case False
  have "s \<noteq> NULL" "s < next_addr h"
    using assms(1,3) by (auto simp: heap_wf_def NULL_def intro: ccontr)
  then show ?thesis
    using assms(1,4) by (auto simp: get_view [OF assms(1-3) False] heap_wf_def NULL_def)
qed

text \<open>
  Claim C3. Creating a view from a root \<open>R\<close> by \<^verbatim>\<open>dense_storage_get\<close> with a slice that
  is not a single element adds exactly 1 to \<open>R.count\<close> and changes no other field of
  \<open>R\<close>, no array and no buffer; the view's \<open>src\<close> is \<open>R\<close>, it shares the buffer of
  \<open>R\<close>, and its shape and offset are the arrays of the slice. Destroying the view by
  \<^verbatim>\<open>dense_storage_delete_ref\<close> subtracts exactly 1 from \<open>R.count\<close>, so that every
  struct is as before the view was created, releases the view's shape and offset arrays
  and nothing else, and leaves every buffer as it was. The statement holds for every
  storage \<open>R\<close> of a well-formed store, a root in particular.
\<close>

theorem view_lifetime:
  assumes "heap_wf h" "allocs_succeed 1 h" "storages h R = Some Rs" "\<not> is_one_el slice"
  shows "\<exists>v h1 V h2.
     dense_storage_get R slice h = Inr (StoragePtr v, h1) \<and>
     storages h1 R = Some (Rs\<lparr>count := count Rs + 1\<rparr>) \<and>
     storages h1 v = Some V \<and> v \<noteq> R \<and> src V = R \<and> elements V = elements Rs \<and>
     shape V = lens slice \<and> offset V = coords slice \<and>
     arrays h1 = arrays h \<and> buffers h1 = buffers h \<and>
     dense_storage_delete_ref v h1 = Inr h2 \<and>
     storages h2 = storages h \<and>
     arrays h2 = (arrays h)(lens slice := None, coords slice := None) \<and>
     buffers h2 = buffers h"
proof -
  let ?v = "next_addr h"
  have a0: "?v \<noteq> NULL" using heap_wf_fresh(4) [OF assms(1) le_refl] .
  have fresh: "storages h ?v = None" using heap_wf_fresh(1) [OF assms(1) le_refl] .
  have ne: "R \<noteq> ?v" using assms(3) fresh by auto
  have nl: "arrays h NULL = None" using heap_wf_NULL(2) [OF assms(1)] .
  have st: "(storages h)(?v := None, R \<mapsto> Rs) = storages h"
    using fresh assms(3) by (auto simp: fun_eq_iff)
  have nul: "(arrays h)(NULL := None) = arrays h"
    using nl by (simp add: fun_upd_idem)
  show ?thesis
    using a0 ne st nul
    by (auto simp add: get_view [OF assms] dense_storage_delete_ref_def update_storage_Some
        free_storage_def free_array_def fun_upd_twist)
qed

text \<open>At the first storage of \<open>small_heap\<close>, whose count goes from 1 to 2 and back.\<close>

theorem view_lifetime_witness:
  "\<exists>v h1 V h2.
     dense_storage_get 1 \<lparr>coords = 7, lens = 6, is_one_el = False\<rparr> small_heap
       = Inr (StoragePtr v, h1) \<and>
     storages h1 1 = Some \<lparr>dtype = OTHER 0, rank = 1, shape = 2, offset = 3, elements = 4,
                            count = 2, src = 1\<rparr> \<and>
     storages h1 v = Some V \<and> v \<noteq> 1 \<and> src V = 1 \<and> elements V = 4 \<and>
     shape V = 6 \<and> offset V = 7 \<and>
     arrays h1 = arrays small_heap \<and> buffers h1 = buffers small_heap \<and>
     dense_storage_delete_ref v h1 = Inr h2 \<and>
     storages h2 = storages small_heap \<and>
     arrays h2 = (arrays small_heap)(6 := None, 7 := None) \<and>
     buffers h2 = buffers small_heap"
proof -
  have "storages small_heap 1 = Some \<lparr>dtype = OTHER 0, rank = 1, shape = 2, offset = 3,
      elements = 4, count = 1, src = 1\<rparr>"
    by (simp add: small_heap_def)
  from view_lifetime [OF small_heap_wf(1) small_heap_wf(2) this,
      of "\<lparr>coords = 7, lens = 6, is_one_el = False\<rparr>"]
  show ?thesis by simp
qed

text \<open>
  Claim C2 fails on the code. \<^verbatim>\<open>dense_storage_get\<close> sets \<^verbatim>\<open>ns->src = s\<close> and
  increments \<^verbatim>\<open>s->count\<close> for the storage \<open>s\<close> it is applied to, whether \<open>s\<close> is a root
  or a view. In \<open>root_heap\<close>, a view (address 9) is taken from the root (address 1),
  and a second view (address 10) is taken from the first: the \<open>src\<close> of the second view
  is the first view, not the root that owns the buffer at address 4, and the count of
  the root is 2, not 3.
\<close>

theorem view_of_view_src:
  "dense_storage_get 1 \<lparr>coords = 5, lens = 6, is_one_el = False\<rparr> root_heap
     = Inr (StoragePtr 9, root_heap_one_view) \<and>
   dense_storage_get 9 \<lparr>coords = 7, lens = 8, is_one_el = False\<rparr> root_heap_one_view
     = Inr (StoragePtr 10, root_heap_two_views) \<and>
   storages root_heap_two_views 10 =
     Some \<lparr>dtype = OTHER 0, rank = 2, shape = 8, offset = 7, elements = 4, count = 0, src = 9\<rparr> \<and>
   storages root_heap_two_views 9 =
     Some \<lparr>dtype = OTHER 0, rank = 2, shape = 6, offset = 5, elements = 4, count = 1, src = 1\<rparr> \<and>
   storages root_heap_two_views 1 =
     Some \<lparr>dtype = OTHER 0, rank = 2, shape = 2, offset = 3, elements = 4, count = 2, src = 1\<rparr>"
proof -
  let ?sl1 = "\<lparr>coords = 5, lens = 6, is_one_el = False\<rparr>"
  let ?sl2 = "\<lparr>coords = 7, lens = 8, is_one_el = False\<rparr>"
  have R: "storages root_heap 1 =
      Some \<lparr>dtype = OTHER 0, rank = 2, shape = 2, offset = 3, elements = 4, count = 1, src = 1\<rparr>"
    by (simp add: root_heap_def)
  have g1: "dense_storage_get 1 ?sl1 root_heap = Inr (StoragePtr 9, root_heap_one_view)"
    using get_view [OF root_heap_wf(1) root_heap_wf(2) R, of ?sl1]
    by (simp add: root_heap_def root_heap_one_view_def junk0_def fun_upd_twist)
  have wf1: "heap_wf root_heap_one_view" "allocs_succeed 1 root_heap_one_view"
    by (auto simp: heap_wf_def allocs_succeed_def root_heap_one_view_def NULL_def)
  have V: "storages root_heap_one_view 9 =
      Some \<lparr>dtype = OTHER 0, rank = 2, shape = 6, offset = 5, elements = 4, count = 0, src = 1\<rparr>"
    by (simp add: root_heap_one_view_def)
  have g2: "dense_storage_get 9 ?sl2 root_heap_one_view = Inr (StoragePtr 10, root_heap_two_views)"
    using get_view [OF wf1 V, of ?sl2]
    by (simp add: root_heap_one_view_def root_heap_two_views_def junk0_def fun_upd_twist)
  show ?thesis
    using g1 g2 by (simp add: root_heap_two_views_def)
qed

section \<open>Copying and casting\<close>

lemma write_array_Some:
  "arrays h p = Some xs \<Longrightarrow> k < length xs \<Longrightarrow>
   write_array h p k v = Inr (h\<lparr>arrays := (arrays h)(p \<mapsto> xs[k := v])\<rparr>)"
  by (simp add: write_array_def)

lemma copy_shape_result:
  assumes "dst \<noteq> sp"
  shows "arrays h sp = Some ext \<Longrightarrow> p \<le> length ext \<Longrightarrow>
         arrays h dst = Some cur \<Longrightarrow> p \<le> length cur \<Longrightarrow>
         copy_shape dst sp p h =
           Inr (h\<lparr>arrays := (arrays h)(dst \<mapsto> take p ext @ drop p cur)\<rparr>)"
proof (induction p arbitrary: h cur)
  case 0
  then have "(arrays h)(dst \<mapsto> cur) = arrays h" by (simp add: map_upd_triv)
  then show ?case by simp
next
  case (Suc p)
  let ?h' = "h\<lparr>arrays := (arrays h)(dst \<mapsto> cur[p := ext ! p])\<rparr>"
  have step: "copy_shape dst sp (Suc p) h = copy_shape dst sp p ?h'"
    using Suc.prems by (simp add: read_array_Some write_array_Some)
  have ih: "copy_shape dst sp p ?h' = Inr (?h'\<lparr>arrays := (arrays ?h')(dst \<mapsto> take p ext @ drop p (cur[p := ext ! p]))\<rparr>)"
    using Suc.prems assms by (intro Suc.IH) auto
  have "take p ext @ drop p (cur[p := ext ! p]) = take (Suc p) ext @ drop (Suc p) cur"
    using Suc.prems by (simp add: take_Suc_conv_app_nth upd_conv_take_nth_drop)
  then have fin: "?h'\<lparr>arrays := (arrays ?h')(dst \<mapsto> take p ext @ drop p (cur[p := ext ! p]))\<rparr> =
      h\<lparr>arrays := (arrays h)(dst \<mapsto> take (Suc p) ext @ drop (Suc p) cur)\<rparr>"
    by simp
  show ?case by (simp only: step ih fin)
qed

lemma cast_loop_cells:
  assumes "le \<noteq> re"
  shows "buffers h re = Some sb \<Longrightarrow> buffers h le = Some db \<Longrightarrow>
         cast_loop asg le re k h =
           (case cast_cells asg sb k db of
              Inl e \<Rightarrow> Inl e
            | Inr db' \<Rightarrow> Inr (h\<lparr>buffers := (buffers h)(le \<mapsto> db')\<rparr>))"
proof (induction k arbitrary: h db)
  case 0
  then have "(buffers h)(le \<mapsto> db) = buffers h" by (simp add: map_upd_triv)
  then show ?case by simp
next
  case (Suc k)
  show ?case
  proof (cases "asg k sb db")
    case (Inl e)
    then show ?thesis using Suc.prems by simp
  next
    case (Inr db')
    let ?h' = "h\<lparr>buffers := (buffers h)(le \<mapsto> db')\<rparr>"
    have b: "buffers ?h' re = Some sb" "buffers ?h' le = Some db'"
      using Suc.prems assms by auto
    have u: "\<And>x. ?h'\<lparr>buffers := (buffers ?h')(le \<mapsto> x)\<rparr> = h\<lparr>buffers := (buffers h)(le \<mapsto> x)\<rparr>"
      by simp
    have "cast_loop asg le re (Suc k) h = cast_loop asg le re k ?h'"
      using Suc.prems Inr by simp
    also have "\<dots> = (case cast_cells asg sb k db' of
           Inl e \<Rightarrow> Inl e
         | Inr x \<Rightarrow> Inr (?h'\<lparr>buffers := (buffers ?h')(le \<mapsto> x)\<rparr>))"
      by (rule Suc.IH [OF b])
    also have "\<dots> = (case cast_cells asg sb (Suc k) db of
           Inl e \<Rightarrow> Inl e
         | Inr x \<Rightarrow> Inr (h\<lparr>buffers := (buffers h)(le \<mapsto> x)\<rparr>))"
      unfolding u using Inr by simp
    finally show ?thesis .
  qed
qed

lemma allocs_succeed_4:
  assumes "allocs_succeed 4 h"
  shows "allocs_succeed 3 h" "head_ok (tl (tl (tl (alloc_plan h))))"
proof -
  have a: "False \<notin> set (take (Suc (Suc (Suc (Suc 0)))) (alloc_plan h))"
    using assms by (simp add: allocs_succeed_def eval_nat_numeral)
  have "set (take 3 (alloc_plan h)) \<subseteq> set (take 4 (alloc_plan h))"
    by (rule set_take_subset_set_take) simp
  then show "allocs_succeed 3 h" using assms by (auto simp: allocs_succeed_def)
  have b: "False \<notin> set (take (Suc (Suc (Suc 0))) (tl (alloc_plan h)))" using a by (rule head_ok_take(2))
  have c: "False \<notin> set (take (Suc (Suc 0)) (tl (tl (alloc_plan h))))" using b by (rule head_ok_take(2))
  have d: "False \<notin> set (take (Suc 0) (tl (tl (tl (alloc_plan h)))))" using c by (rule head_ok_take(2))
  show "head_ok (tl (tl (tl (alloc_plan h))))" using d by (rule head_ok_take(1))
qed

lemma scme_Some:
  "arrays h sh = Some ext \<Longrightarrow> rk \<le> length ext \<Longrightarrow>
   storage_count_max_elements h rk sh = Inr (prod_list (take rk ext))"
  by (simp add: storage_count_max_elements_def)

lemma copy_prefix:
  assumes wf: "heap_wf h" and ok: "allocs_succeed (if prod_list (take (rank R) ext) = 0 then 3 else 4) h"
    and R: "storages h rhs = Some R"
    and ext: "arrays h (shape R) = Some ext" "rank R \<le> length ext"
  shows "ALLOC_N_size_t (rank R) h =
           (next_addr h, h\<lparr>arrays := (arrays h)(next_addr h \<mapsto> replicate (rank R) (junk_size h)),
               next_addr := Suc (next_addr h), alloc_plan := tl (alloc_plan h)\<rparr>)"
    and "copy_shape (next_addr h) (shape R) (rank R)
           (h\<lparr>arrays := (arrays h)(next_addr h \<mapsto> replicate (rank R) (junk_size h)),
               next_addr := Suc (next_addr h), alloc_plan := tl (alloc_plan h)\<rparr>) =
         Inr (h\<lparr>arrays := (arrays h)(next_addr h \<mapsto> take (rank R) ext),
               next_addr := Suc (next_addr h), alloc_plan := tl (alloc_plan h)\<rparr>)"
    and "dense_storage_create dt (next_addr h) (rank R) NULL 0
           (h\<lparr>arrays := (arrays h)(next_addr h \<mapsto> take (rank R) ext),
               next_addr := Suc (next_addr h), alloc_plan := tl (alloc_plan h)\<rparr>) =
         Inr (Suc (next_addr h), copied_heap h R dt ext (replicate (prod_list (take (rank R) ext)) (junk_cell h)))"
proof -
  let ?a = "next_addr h" and ?p = "alloc_plan h" and ?cnt = "prod_list (take (rank R) ext)"
  have ok3: "allocs_succeed 3 h" using ok allocs_succeed_4(1) [of h] by (auto split: if_splits)
  note oks = allocs_succeed_3 [OF ok3]
  have ok4: "?cnt \<noteq> 0 \<longrightarrow> head_ok (tl (tl (tl ?p)))"
    using ok allocs_succeed_4(2) [of h] by auto
  have a0: "?a \<noteq> NULL" using heap_wf_fresh(4) [OF wf le_refl] .
  have sha: "shape R \<noteq> ?a" using ext(1) heap_wf_fresh(2) [OF wf le_refl] by auto
  let ?h1 = "h\<lparr>arrays := (arrays h)(?a \<mapsto> replicate (rank R) (junk_size h)),
               next_addr := Suc ?a, alloc_plan := tl ?p\<rparr>"
  show "ALLOC_N_size_t (rank R) h = (?a, ?h1)"
    using oks(1) a0 by (simp add: ALLOC_N_size_t_def take_address_eq)
  let ?h2 = "h\<lparr>arrays := (arrays h)(?a \<mapsto> take (rank R) ext),
               next_addr := Suc ?a, alloc_plan := tl ?p\<rparr>"
  have "copy_shape ?a (shape R) (rank R) ?h1 =
      Inr (?h1\<lparr>arrays := (arrays ?h1)(?a \<mapsto> take (rank R) ext @ drop (rank R) (replicate (rank R) (junk_size h)))\<rparr>)"
    using sha ext by (intro copy_shape_result) auto
  then show "copy_shape ?a (shape R) (rank R) ?h1 = Inr ?h2" by simp
  have wf2: "heap_wf ?h2" using wf by (auto simp: heap_wf_def NULL_def)
  have sc: "storage_count_max_elements ?h2 (rank R) ?a = Inr ?cnt"
    using ext(2) by (simp add: storage_count_max_elements_def)
  show "dense_storage_create dt ?a (rank R) NULL 0 ?h2 =
         Inr (Suc ?a, copied_heap h R dt ext (replicate ?cnt (junk_cell h)))"
    using oks ok4
    by (subst create_no_payload [OF wf2 _ _ _ sc]) (auto simp: copied_heap_def Let_def)
qed

lemma copy_result:
  assumes wf: "heap_wf h"
    and ok: "allocs_succeed (if prod_list (take (rank R) ext) = 0 then 3 else 4) h"
    and R: "storages h rhs = Some R"
    and ext: "arrays h (shape R) = Some ext" "rank R \<le> length ext"
    and buf: "prod_list (take (rank R) ext) = 0 \<or>
              (buffers h (elements R) = Some B \<and> prod_list (take (rank R) ext) \<le> length B)"
  shows "dense_storage_copy rhs h =
           Inr (Suc (next_addr h),
                copied_heap h R (dtype R) ext (take (prod_list (take (rank R) ext)) B))"
proof (cases "prod_list (take (rank R) ext) = 0")
  case True
  then show ?thesis
    using R heap_wf_fresh(4) [OF wf le_refl]
    by (simp add: dense_storage_copy_def scme_Some [OF ext] copy_prefix [OF wf ok R ext]
        copied_heap_def Let_def)
next
  case False
  let ?a = "next_addr h" and ?cnt = "prod_list (take (rank R) ext)"
  have B: "buffers h (elements R) = Some B" "?cnt \<le> length B" using buf False by auto
  have ne: "elements R \<noteq> Suc (Suc (Suc ?a))"
    using B(1) heap_wf_fresh(3) [OF wf, of "Suc (Suc (Suc ?a))"] by auto
  let ?h3 = "copied_heap h R (dtype R) ext (replicate ?cnt (junk_cell h))"
  have L: "storages ?h3 (Suc ?a) =
      Some \<lparr>dtype = dtype R, rank = rank R, shape = ?a, offset = Suc (Suc ?a),
             elements = Suc (Suc (Suc ?a)), count = 1, src = Suc ?a\<rparr>"
    using False by (simp add: copied_heap_def Let_def)
  have cp: "memcpy (Suc (Suc (Suc ?a))) 0 (elements R) 0 ?cnt ?h3 =
      Inr (copied_heap h R (dtype R) ext (take ?cnt B))"
    using False B ne by (simp add: memcpy_def copied_heap_def Let_def)
  have nn: "next_addr h \<noteq> NULL" "Suc (next_addr h) \<noteq> NULL"
    using heap_wf_fresh(4) [OF wf le_refl] by (simp_all add: NULL_def)
  show ?thesis
    using R False L cp nn
    by (simp add: dense_storage_copy_def scme_Some [OF ext] copy_prefix [OF wf ok R ext])
qed

lemma cast_copy_template_result:
  assumes wf: "heap_wf h"
    and ok: "allocs_succeed (if prod_list (take (rank R) ext) = 0 then 3 else 4) h"
    and R: "storages h rhs = Some R"
    and ext: "arrays h (shape R) = Some ext" "rank R \<le> length ext"
    and buf: "prod_list (take (rank R) ext) = 0 \<or>
              (buffers h (elements R) = Some B \<and> prod_list (take (rank R) ext) \<le> length B)"
  shows "dense_storage_cast_copy_template asg rhs new_dtype h =
           (if new_dtype = dtype R \<or> prod_list (take (rank R) ext) = 0 then
              Inr (Suc (next_addr h),
                   copied_heap h R new_dtype ext (take (prod_list (take (rank R) ext)) B))
            else
              (case cast_cells asg B (prod_list (take (rank R) ext))
                      (replicate (prod_list (take (rank R) ext)) (junk_cell h)) of
                 Inl e \<Rightarrow> Inl e
               | Inr cells \<Rightarrow> Inr (Suc (next_addr h), copied_heap h R new_dtype ext cells)))"
proof (cases "prod_list (take (rank R) ext) = 0")
  case True
  then show ?thesis
    using R heap_wf_fresh(4) [OF wf le_refl]
    by (simp add: dense_storage_cast_copy_template_def scme_Some [OF ext]
        copy_prefix [OF wf ok R ext] copied_heap_def Let_def)
next
  case False
  let ?a = "next_addr h" and ?cnt = "prod_list (take (rank R) ext)"
  have B: "buffers h (elements R) = Some B" "?cnt \<le> length B" using buf False by auto
  have ne: "elements R \<noteq> Suc (Suc (Suc ?a))"
    using B(1) heap_wf_fresh(3) [OF wf, of "Suc (Suc (Suc ?a))"] by auto
  let ?h3 = "copied_heap h R new_dtype ext (replicate ?cnt (junk_cell h))"
  have L: "storages ?h3 (Suc ?a) =
      Some \<lparr>dtype = new_dtype, rank = rank R, shape = ?a, offset = Suc (Suc ?a),
             elements = Suc (Suc (Suc ?a)), count = 1, src = Suc ?a\<rparr>"
    using False by (simp add: copied_heap_def Let_def)
  have cp: "memcpy (Suc (Suc (Suc ?a))) 0 (elements R) 0 ?cnt ?h3 =
      Inr (copied_heap h R new_dtype ext (take ?cnt B))"
    using False B ne by (simp add: memcpy_def copied_heap_def Let_def)
  have b3: "buffers ?h3 (elements R) = Some B"
    "buffers ?h3 (Suc (Suc (Suc ?a))) = Some (replicate ?cnt (junk_cell h))"
    using False B ne by (simp_all add: copied_heap_def Let_def)
  have upd: "\<And>cells. ?h3\<lparr>buffers := (buffers ?h3)(Suc (Suc (Suc ?a)) \<mapsto> cells)\<rparr> =
      copied_heap h R new_dtype ext cells"
    using False by (simp add: copied_heap_def Let_def)
  have "cast_loop asg (Suc (Suc (Suc ?a))) (elements R) ?cnt ?h3 =
      (case cast_cells asg B ?cnt (replicate ?cnt (junk_cell h)) of
         Inl e \<Rightarrow> Inl e
       | Inr cells \<Rightarrow> Inr (?h3\<lparr>buffers := (buffers ?h3)(Suc (Suc (Suc ?a)) \<mapsto> cells)\<rparr>))"
    using ne b3 by (intro cast_loop_cells) auto
  then have cl: "cast_loop asg (Suc (Suc (Suc ?a))) (elements R) ?cnt ?h3 =
      (case cast_cells asg B ?cnt (replicate ?cnt (junk_cell h)) of
         Inl e \<Rightarrow> Inl e
       | Inr cells \<Rightarrow> Inr (copied_heap h R new_dtype ext cells))"
    by (simp only: upd)
  have nn: "next_addr h \<noteq> NULL" "Suc (next_addr h) \<noteq> NULL"
    using heap_wf_fresh(4) [OF wf le_refl] by (simp_all add: NULL_def)
  show ?thesis
    using R False L cp nn
    by (cases "new_dtype = dtype R")
      (simp_all add: dense_storage_cast_copy_template_def scme_Some [OF ext]
        copy_prefix [OF wf ok R ext] cl split: sum.splits)
qed

lemma heap_wf_copied_heap:
  assumes "heap_wf h"
  shows "heap_wf (copied_heap h R dt ext cells)"
  using assms by (auto simp: heap_wf_def copied_heap_def Let_def NULL_def)

lemma allocs_succeed_either:
  "allocs_succeed 4 h \<Longrightarrow> allocs_succeed (if c then 3 else 4) h"
  using allocs_succeed_4(1) [of h] by simp

lemma copy_preserves_wf:
  assumes "heap_wf h" "allocs_succeed 4 h"
    "storages h rhs = Some R" "arrays h (shape R) = Some ext" "rank R \<le> length ext"
    "prod_list (take (rank R) ext) = 0 \<or>
       (buffers h (elements R) = Some B \<and> prod_list (take (rank R) ext) \<le> length B)"
    "dense_storage_copy rhs h = Inr (lhs, h')"
  shows "heap_wf h'"
  using assms(7) heap_wf_copied_heap [OF assms(1)]
  by (auto simp: copy_result [OF assms(1) allocs_succeed_either [OF assms(2)] assms(3-6)])

lemma manual_buffer_copy_take: "n \<le> length B \<Longrightarrow> manual_buffer_copy B n = take n B"
  by (induction n) (simp_all add: take_Suc_conv_app_nth)

lemma copy_alloc_failure:
  assumes "storages h rhs = Some R" "arrays h (shape R) = Some ext" "rank R \<le> length ext"
    "alloc_plan h = False # plan"
  shows "dense_storage_copy rhs h = Inr (NULL, h\<lparr>alloc_plan := plan\<rparr>)"
    and "dense_storage_cast_copy_template asg rhs new_dtype h = Inr (NULL, h\<lparr>alloc_plan := plan\<rparr>)"
  using assms
  by (simp_all add: dense_storage_copy_def dense_storage_cast_copy_template_def scme_Some
      ALLOC_N_size_t_def take_address_def)

text \<open>
  Claim C8. Let \<open>rhs\<close> be a storage whose shape array exists. When the allocation of the
  new shape array fails, \<^verbatim>\<open>dense_storage_copy\<close> and \<^verbatim>\<open>dense_storage_cast_copy\<close> return
  \<open>NULL\<close>, and the store holds what it held before the call: no partially built storage.
  When the allocations succeed and the element count of \<open>rhs\<close> is zero, both return a new
  root with the rank of \<open>rhs\<close>, a copy of its shape, a zero offset, count 1, \<open>src\<close>
  itself and the dtype asked for; the root has no buffer (\<open>elements\<close> is \<open>NULL\<close>) and no
  buffer of the store is read or changed.
\<close>

theorem copy_failure_and_empty:
  assumes "storages h rhs = Some R" "arrays h (shape R) = Some ext" "rank R \<le> length ext"
  shows "(alloc_plan h = False # plan \<longrightarrow>
            dense_storage_copy rhs h = Inr (NULL, h\<lparr>alloc_plan := plan\<rparr>) \<and>
            dense_storage_cast_copy assign rhs new_dtype h = Inr (NULL, h\<lparr>alloc_plan := plan\<rparr>)) \<and>
         (heap_wf h \<and> allocs_succeed 3 h \<and> prod_list (take (rank R) ext) = 0 \<longrightarrow>
            (\<exists>lhs h' L. dense_storage_copy rhs h = Inr (lhs, h') \<and> lhs \<noteq> NULL \<and>
               storages h' lhs = Some L \<and> dtype L = dtype R \<and> rank L = rank R \<and>
               arrays h' (shape L) = Some (take (rank R) ext) \<and>
               arrays h' (offset L) = Some (replicate (rank R) 0) \<and>
               elements L = NULL \<and> count L = 1 \<and> src L = lhs \<and> buffers h' = buffers h) \<and>
            (\<exists>lhs h' L. dense_storage_cast_copy assign rhs new_dtype h = Inr (lhs, h') \<and> lhs \<noteq> NULL \<and>
               storages h' lhs = Some L \<and> dtype L = new_dtype \<and> rank L = rank R \<and>
               arrays h' (shape L) = Some (take (rank R) ext) \<and>
               arrays h' (offset L) = Some (replicate (rank R) 0) \<and>
               elements L = NULL \<and> count L = 1 \<and> src L = lhs \<and> buffers h' = buffers h))"
proof (intro conjI impI)
  assume "alloc_plan h = False # plan"
  then show "dense_storage_copy rhs h = Inr (NULL, h\<lparr>alloc_plan := plan\<rparr>)"
    and "dense_storage_cast_copy assign rhs new_dtype h = Inr (NULL, h\<lparr>alloc_plan := plan\<rparr>)"
    using assms by (simp_all add: dense_storage_cast_copy_def copy_alloc_failure)
next
  assume a: "heap_wf h \<and> allocs_succeed 3 h \<and> prod_list (take (rank R) ext) = 0"
  then have ok: "allocs_succeed (if prod_list (take (rank R) ext) = 0 then 3 else 4) h" by simp
  have z: "prod_list (take (rank R) ext) = 0 \<or>
      (buffers h (elements R) = Some [] \<and> prod_list (take (rank R) ext) \<le> length [])"
    using a by simp
  have n: "Suc (next_addr h) \<noteq> NULL" by (simp add: NULL_def)
  show "\<exists>lhs h' L. dense_storage_copy rhs h = Inr (lhs, h') \<and> lhs \<noteq> NULL \<and>
               storages h' lhs = Some L \<and> dtype L = dtype R \<and> rank L = rank R \<and>
               arrays h' (shape L) = Some (take (rank R) ext) \<and>
               arrays h' (offset L) = Some (replicate (rank R) 0) \<and>
               elements L = NULL \<and> count L = 1 \<and> src L = lhs \<and> buffers h' = buffers h"
    using a n
    by (simp add: copy_result [OF _ ok assms z] copied_heap_def Let_def)
  show "\<exists>lhs h' L. dense_storage_cast_copy assign rhs new_dtype h = Inr (lhs, h') \<and> lhs \<noteq> NULL \<and>
               storages h' lhs = Some L \<and> dtype L = new_dtype \<and> rank L = rank R \<and>
               arrays h' (shape L) = Some (take (rank R) ext) \<and>
               arrays h' (offset L) = Some (replicate (rank R) 0) \<and>
               elements L = NULL \<and> count L = 1 \<and> src L = lhs \<and> buffers h' = buffers h"
    using a n assms(1)
    by (simp add: dense_storage_cast_copy_def cast_copy_template_result [OF _ ok assms z]
        copied_heap_def Let_def)
qed

text \<open>
  The failing allocation at \<open>small_heap\<close> with the plan \<open>[False]\<close>, and the empty 0 by 3
  root of \<open>empty_heap\<close>.
\<close>

theorem copy_failure_and_empty_witness:
  "dense_storage_copy 1 (small_heap\<lparr>alloc_plan := [False]\<rparr>)
     = Inr (NULL, small_heap\<lparr>alloc_plan := []\<rparr>) \<and>
   dense_storage_cast_copy assign_succ 1 (OTHER 1) (small_heap\<lparr>alloc_plan := [False]\<rparr>)
     = Inr (NULL, small_heap\<lparr>alloc_plan := []\<rparr>) \<and>
   (\<exists>lhs h' L. dense_storage_copy 1 empty_heap = Inr (lhs, h') \<and> lhs \<noteq> NULL \<and>
       storages h' lhs = Some L \<and> dtype L = OTHER 0 \<and> rank L = 2 \<and>
       arrays h' (shape L) = Some [0, 3] \<and> arrays h' (offset L) = Some [0, 0] \<and>
       elements L = NULL \<and> count L = 1 \<and> src L = lhs \<and> buffers h' = buffers empty_heap) \<and>
   (\<exists>lhs h' L. dense_storage_cast_copy assign_succ 1 (OTHER 1) empty_heap = Inr (lhs, h') \<and>
       lhs \<noteq> NULL \<and>
       storages h' lhs = Some L \<and> dtype L = OTHER 1 \<and> rank L = 2 \<and>
       arrays h' (shape L) = Some [0, 3] \<and> arrays h' (offset L) = Some [0, 0] \<and>
       elements L = NULL \<and> count L = 1 \<and> src L = lhs \<and> buffers h' = buffers empty_heap)"
proof -
  have f: "storages (small_heap\<lparr>alloc_plan := [False]\<rparr>) 1 =
       Some \<lparr>dtype = OTHER 0, rank = 1, shape = 2, offset = 3, elements = 4, count = 1, src = 1\<rparr>"
    "arrays (small_heap\<lparr>alloc_plan := [False]\<rparr>) 2 = Some [3]"
    by (simp_all add: small_heap_def)
  have e: "storages empty_heap 1 =
       Some \<lparr>dtype = OTHER 0, rank = 2, shape = 2, offset = 3, elements = 0, count = 1, src = 1\<rparr>"
    "arrays empty_heap 2 = Some [0, 3]"
    by (simp_all add: empty_heap_def)
  from copy_failure_and_empty [OF f(1), of "[3]" "[]" assign_succ "OTHER 1"] f(2)
    copy_failure_and_empty [OF e(1), of "[0, 3]" "[]" assign_succ "OTHER 1"] e(2)
    empty_heap_wf
  show ?thesis by (simp add: numeral_2_eq_2)
qed

text \<open>
  Claim C9. For a storage \<open>rhs\<close> of a well-formed store, \<^verbatim>\<open>dense_storage_cast_copy\<close>
  to the dtype of \<open>rhs\<close> itself takes the \<^verbatim>\<open>memcpy\<close> path: it returns what
  \<^verbatim>\<open>dense_storage_copy\<close> returns, result and store, and the buffer of the new root is
  the manual copy, element by element, of the first \<open>product(shape)\<close> elements of the
  buffer of \<open>rhs\<close>, whatever the converting assignment \<open>assign\<close> is. (With an element
  count of zero the new root has no buffer.)
\<close>

theorem cast_copy_same_dtype:
  assumes "heap_wf h" "allocs_succeed 4 h"
    "storages h rhs = Some R" "arrays h (shape R) = Some ext" "rank R \<le> length ext"
    "prod_list (take (rank R) ext) = 0 \<or>
       (buffers h (elements R) = Some B \<and> prod_list (take (rank R) ext) \<le> length B)"
  shows "dense_storage_cast_copy assign rhs (dtype R) h = dense_storage_copy rhs h \<and>
         (\<exists>lhs h' L. dense_storage_cast_copy assign rhs (dtype R) h = Inr (lhs, h') \<and>
            storages h' lhs = Some L \<and> dtype L = dtype R \<and>
            (if prod_list (take (rank R) ext) = 0 then elements L = NULL
             else buffers h' (elements L) =
                    Some (manual_buffer_copy B (prod_list (take (rank R) ext)))))"
proof -
  note ok = allocs_succeed_either [OF assms(2)]
  have m: "prod_list (take (rank R) ext) \<noteq> 0 \<Longrightarrow>
      manual_buffer_copy B (prod_list (take (rank R) ext)) = take (prod_list (take (rank R) ext)) B"
    using assms(6) by (simp add: manual_buffer_copy_take)
  show ?thesis
    using assms(3) m
    by (simp add: dense_storage_cast_copy_def
        cast_copy_template_result [OF assms(1) ok assms(3-6)]
        copy_result [OF assms(1) ok assms(3-6)] copied_heap_def Let_def)
qed

text \<open>
  At the first storage of \<open>small_heap\<close>, with an assignment that would add 1 to every
  element if it were applied.
\<close>

theorem cast_copy_same_dtype_witness:
  "dense_storage_cast_copy assign_succ 1 (OTHER 0) small_heap = dense_storage_copy 1 small_heap \<and>
   (\<exists>lhs h' L. dense_storage_cast_copy assign_succ 1 (OTHER 0) small_heap = Inr (lhs, h') \<and>
       storages h' lhs = Some L \<and> dtype L = OTHER 0 \<and>
       buffers h' (elements L) = Some [1, 2, 3])"
proof -
  have f: "storages small_heap 1 = Some \<lparr>dtype = OTHER 0, rank = 1, shape = 2, offset = 3,
      elements = 4, count = 1, src = 1\<rparr>"
    "arrays small_heap 2 = Some [3]" "buffers small_heap 4 = Some [1, 2, 3]"
    by (simp_all add: small_heap_def)
  from cast_copy_same_dtype [OF small_heap_wf(1) small_heap_wf(2) f(1), of "[3]" "[1, 2, 3]"
      assign_succ] f(2,3)
  show ?thesis by (simp add: numeral_3_eq_3) metis
qed

text \<open>
  For every storage \<open>v\<close>, a view with a non-zero offset in particular, with an element
  count \<open>n = product(v.shape) > 0\<close>: the buffer of \<^verbatim>\<open>dense_storage_copy(v)\<close>, and the
  buffer of \<^verbatim>\<open>dense_storage_cast_copy(v, v.dtype)\<close>, is the first \<open>n\<close> elements, from
  index 0, of the buffer \<open>v\<close> shares with its root. The offset of \<open>v\<close> does not occur in
  the result.
\<close>

lemma copy_ignores_offset:
  assumes "heap_wf h" "allocs_succeed 4 h"
    "storages h v = Some V" "arrays h (shape V) = Some ext" "rank V \<le> length ext"
    "buffers h (elements V) = Some B"
    "0 < prod_list (take (rank V) ext)" "prod_list (take (rank V) ext) \<le> length B"
  shows "(\<exists>lhs h' L. dense_storage_copy v h = Inr (lhs, h') \<and> storages h' lhs = Some L \<and>
            buffers h' (elements L) = Some (take (prod_list (take (rank V) ext)) B)) \<and>
         (\<exists>lhs h' L. dense_storage_cast_copy assign v (dtype V) h = Inr (lhs, h') \<and>
            storages h' lhs = Some L \<and>
            buffers h' (elements L) = Some (take (prod_list (take (rank V) ext)) B))"
proof -
  note ok = allocs_succeed_either [OF assms(2)]
  have b: "prod_list (take (rank V) ext) = 0 \<or>
       (buffers h (elements V) = Some B \<and> prod_list (take (rank V) ext) \<le> length B)"
    using assms by simp
  show ?thesis
    using assms(3,7)
    by (simp add: dense_storage_cast_copy_def
        cast_copy_template_result [OF assms(1) ok assms(3-5) b]
        copy_result [OF assms(1) ok assms(3-5) b] copied_heap_def Let_def)
qed

text \<open>
  At the 2 by 2 view of \<open>view_heap\<close>, whose offset is \<open>[1, 1]\<close> in a 3 by 4 root
  holding \<open>0, \<dots>, 11\<close>: the copy holds \<open>[0, 1, 2, 3]\<close>, while the element of the view
  at the coordinates \<open>[0, 0]\<close> is the one at position 5 of the buffer, which is 5. The
  copy is not the viewed sub-region \<open>[5, 6, 9, 10]\<close>.
\<close>

lemma copy_ignores_offset_example:
  "(\<exists>lhs h' L. dense_storage_copy 5 view_heap = Inr (lhs, h') \<and> storages h' lhs = Some L \<and>
       buffers h' (elements L) = Some [0, 1, 2, 3]) \<and>
   (\<exists>lhs h' L. dense_storage_cast_copy assign_succ 5 (OTHER 3) view_heap = Inr (lhs, h') \<and>
       storages h' lhs = Some L \<and> buffers h' (elements L) = Some [0, 1, 2, 3]) \<and>
   arrays view_heap 7 = Some [1, 1] \<and>
   dense_storage_pos 5 \<lparr>coords = 3, lens = 6, is_one_el = True\<rparr> view_heap = Inr 5 \<and>
   read_cell view_heap 4 5 = Inr 5"
proof -
  have f: "storages view_heap 5 = Some \<lparr>dtype = OTHER 3, rank = 2, shape = 6, offset = 7,
      elements = 4, count = 0, src = 1\<rparr>"
    "arrays view_heap 6 = Some [2, 2]"
    "buffers view_heap 4 = Some [0, 1, 2, 3, 4, 5, 6, 7, 8, 9, 10, 11]"
    by (simp_all add: view_heap_def)
  have p: "dense_storage_pos 5 \<lparr>coords = 3, lens = 6, is_one_el = True\<rparr> view_heap = Inr 5"
    "read_cell view_heap 4 5 = Inr 5" "arrays view_heap 7 = Some [1, 1]"
    by (simp_all add: dense_storage_pos_def view_heap_def read_array_def read_cell_def
        pos_outer_numeral pos_inner.simps size_t_wrap_def)
  from copy_ignores_offset [OF view_heap_wf(1) view_heap_wf(2) f(1), of "[2, 2]"
      "[0, 1, 2, 3, 4, 5, 6, 7, 8, 9, 10, 11]" assign_succ] f(2,3) p
  show ?thesis by (simp add: numeral_2_eq_2)
qed

lemma cast_cells_numeral:
  "cast_cells asg sb (numeral n) db =
     (case asg (pred_numeral n) sb db of
        Inl e \<Rightarrow> Inl e
      | Inr db' \<Rightarrow> cast_cells asg sb (pred_numeral n) db')"
  by (simp add: numeral_eq_Suc)

lemma halfword_heap_wf: "heap_wf halfword_heap" "allocs_succeed n halfword_heap"
  by (auto simp: heap_wf_def allocs_succeed_def halfword_heap_def NULL_def)

text \<open>
  Claim C10: \<^verbatim>\<open>dense_storage_cast_copy(v, d)\<close> reads the first \<open>product(v.shape)\<close>
  elements, from index 0, of the buffer \<open>v\<close> shares with its root. The code does not do
  so when \<open>d\<close> differs from the dtype of \<open>v\<close>: the instance called is the one at
  \<^verbatim>\<open>ttable[new_dtype][rhs->dtype]\<close>, whose first type parameter, the type of
  \<^verbatim>\<open>rhs_els\<close>, is the element type of the new dtype. At the 2 by 2 view of
  \<open>halfword_heap\<close>, whose root holds the 16-bit elements \<open>0, \<dots>, 11\<close>, the cast to
  the 32-bit dtype reads four 32-bit elements, that is the first eight elements of the
  root and not the first four, and writes them as 16-bit elements into the first two of
  the four 32-bit cells of the new buffer: the result holds \<open>0 + 65536 * 2\<close> and
  \<open>4 + 65536 * 6\<close>, then two cells that were never written, where the claim has the
  elements \<open>0, 1, 2, 3\<close>.
\<close>

theorem cast_copy_reads_source_as_new_type:
  "dense_storage_cast_copy assign_halfwords 5 (OTHER 2) halfword_heap =
     Inr (9, halfword_heap_cast) \<and>
   buffers halfword_heap_cast 11 = Some [131072, 393220, 0, 0] \<and>
   take 4 [0, 1, 2, 3, 4, 5, 6, 7, 8, 9, 10, 11 :: nat] = [0, 1, 2, 3] \<and>
   buffers halfword_heap 4 = Some [0, 1, 2, 3, 4, 5, 6, 7, 8, 9, 10, 11]"
proof -
  have f: "storages halfword_heap 5 = Some \<lparr>dtype = OTHER 1, rank = 2, shape = 6, offset = 7,
      elements = 4, count = 0, src = 1\<rparr>"
    "arrays halfword_heap 6 = Some [2, 2]"
    "buffers halfword_heap 4 = Some [0, 1, 2, 3, 4, 5, 6, 7, 8, 9, 10, 11]"
    by (simp_all add: halfword_heap_def)
  have n: "prod_list (take 2 [2, 2 :: nat]) = 4" by simp
  have r: "replicate 4 (0::nat) = [0, 0, 0, 0]" by (simp add: numeral_eq_Suc)
  have c: "cast_cells (assign_halfwords (OTHER 2) (OTHER 1))
      [0, 1, 2, 3, 4, 5, 6, 7, 8, 9, 10, 11] 4 (replicate 4 0) = Inr [131072, 393220, 0, 0]"
    unfolding r by (simp add: cast_cells_numeral assign_halfwords_def Let_def)
  have "dense_storage_cast_copy_template (assign_halfwords (OTHER 2) (OTHER 1)) 5 (OTHER 2)
      halfword_heap =
      Inr (9, copied_heap halfword_heap
           \<lparr>dtype = OTHER 1, rank = 2, shape = 6, offset = 7, elements = 4, count = 0, src = 1\<rparr>
           (OTHER 2) [2, 2] [131072, 393220, 0, 0])"
    using cast_copy_template_result [OF halfword_heap_wf(1) _ f(1), of "[2, 2]"
        "[0, 1, 2, 3, 4, 5, 6, 7, 8, 9, 10, 11]" "assign_halfwords (OTHER 2) (OTHER 1)" "OTHER 2"]
      f(2,3) halfword_heap_wf(2) c
    by (simp add: n) (simp add: halfword_heap_def)
  moreover have "copied_heap halfword_heap
           \<lparr>dtype = OTHER 1, rank = 2, shape = 6, offset = 7, elements = 4, count = 0, src = 1\<rparr>
           (OTHER 2) [2, 2] [131072, 393220, 0, 0] = halfword_heap_cast"
    by (simp add: copied_heap_def halfword_heap_def halfword_heap_cast_def Let_def
        numeral_2_eq_2)
  ultimately show ?thesis
    using f(1,3)
    by (simp add: dense_storage_cast_copy_def get_storage_def) (simp add: halfword_heap_cast_def)
qed

section \<open>Copy identity\<close>







section \<open>The Hermitian test\<close>

lemma hermitian_cols_done:
  "read_array h (shape M) 1 = Inr n1 \<Longrightarrow> \<not> j < n1 \<Longrightarrow>
   hermitian_cols cx h M lda i j = Some (Inr True)"
  by (subst hermitian_cols.simps) simp

lemma hermitian_cols_step:
  "read_array h (shape M) 1 = Inr n1 \<Longrightarrow> j < n1 \<Longrightarrow>
   read_cell h (elements M) (uint_index j lda 1) = Inr c \<Longrightarrow>
   read_cell h (elements M) (uint_index i lda j) = Inr x \<Longrightarrow>
   hermitian_cols cx h M lda i j =
     (if cx x \<noteq> Complex (c_r (cx c)) (- c_i (cx c)) then Some (Inr False)
      else hermitian_cols cx h M lda i ((j + 1) mod 2 ^ 32))"
  by (subst hermitian_cols.simps) simp

lemma hermitian_rows_pos:
  "0 < n \<Longrightarrow> hermitian_rows cx h M lda n =
     (case hermitian_cols cx h M lda (n - 1) (n mod 2 ^ 32) of
        None \<Rightarrow> None
      | Some (Inl e) \<Rightarrow> Some (Inl e)
      | Some (Inr False) \<Rightarrow> Some (Inr False)
      | Some (Inr True) \<Rightarrow> hermitian_rows cx h M lda (n - 1))"
  by (cases n) (auto split: option.splits sum.splits bool.splits)

lemmas matrix_eval = dense_storage_is_hermitian_def dense_storage_is_hermitian_template_def
  get_storage_def read_array_def read_cell_def matrix_heap_def size_t_to_uint_def
  uint_index_def int_to_uint_def hermitian_rows_pos hermitian_cols_done hermitian_cols_step

text \<open>
  Claim C1 fails on the code. \<^verbatim>\<open>dense_storage_is_hermitian_template\<close> takes the
  conjugate of the element at \<^verbatim>\<open>j*lda + 1\<close>, not of the element at the transposed
  position \<^verbatim>\<open>j*lda + i\<close>. For 2 by 2 matrices with \<open>lda = 2\<close> the only pair is
  \<open>i = 0\<close>, \<open>j = 1\<close>, and the code compares the element at position 1 with the conjugate
  of the element at position 3, the diagonal element. The Hermitian matrix
  \<open>[[1, 2+i], [2-i, 5]]\<close> is rejected, and the matrix \<open>[[0, 5], [7, 5]]\<close>, whose
  off-diagonal elements are not conjugate, is accepted.
\<close>

theorem hermitian_reads_wrong_cell:
  "hermitian_matrix ! (0 * 2 + 1) = conjugate (hermitian_matrix ! (1 * 2 + 0)) \<and>
   dense_storage_is_hermitian ne_complex as_complex 1 2 (matrix_heap hermitian_matrix)
     = Some (Inr False) \<and>
   skewed_matrix ! (0 * 2 + 1) \<noteq> conjugate (skewed_matrix ! (1 * 2 + 0)) \<and>
   dense_storage_is_hermitian ne_complex as_complex 1 2 (matrix_heap skewed_matrix)
     = Some (Inr True)"
  by (simp add: matrix_eval hermitian_matrix_def skewed_matrix_def conjugate_def
      ne_complex_def as_complex_def)

end
